theory Spec2Isabelle
  imports Complex_Main "HOL-Library.Word"
begin

section \<open>just-metrics: a buffering metrics client\<close>

text \<open>
  The repository is one TypeScript module, \<^verbatim>\<open>src/index.ts\<close>, of which the sources hold two
  listings. The first is compact (\<^verbatim>\<open>createMetrics\<close> with the closures \<^verbatim>\<open>flush\<close> and
  \<^verbatim>\<open>add\<close>); the second names its helpers (\<^verbatim>\<open>parseDSN\<close>, \<^verbatim>\<open>generateTraceId\<close>,
  \<^verbatim>\<open>formatAttributeValue\<close>, \<^verbatim>\<open>formatAttributes\<close>, \<^verbatim>\<open>scheduleFlush\<close>, \<^verbatim>\<open>createMetric\<close>,
  \<^verbatim>\<open>flush\<close>, \<^verbatim>\<open>buildEnvelope\<close>). Both are embedded here; definitions of the second listing
  whose names clash with the first carry the suffix \<open>2\<close>.

  The closure variables \<^verbatim>\<open>buffer\<close> and \<^verbatim>\<open>timer\<close> and the platform facilities the code
  acts on (the clock, the table of live timeouts, the requests handed to \<^verbatim>\<open>fetch\<close>) are
  one explicit state, passed through every operation. Of the JavaScript platform,
  what a standard fixes and the properties rest on is written out (\<^verbatim>\<open>JSON.stringify\<close>,
  \<^verbatim>\<open>crypto.randomUUID\<close>, \<^verbatim>\<open>setTimeout\<close> and \<^verbatim>\<open>clearTimeout\<close>); the rest is a
  parameter (the URL parser, number and date formatting, the network's answer, the
  random bytes). A string is a list of 8-bit characters.
\<close>

subsection \<open>JavaScript values\<close>

text \<open>
  A JavaScript number is a finite value, \<^verbatim>\<open>NaN\<close> or an infinity. Finite values are
  rationals: every double is one, and the code only tests numbers for integrality and
  prints them.
\<close>

datatype jsnum = Finite rat | NaN | PosInfinity | NegInfinity

text \<open>\<^verbatim>\<open>type AttributeValue = string | number | boolean\<close>\<close>

datatype AttributeValue = AString string | ANumber jsnum | ABoolean bool

text \<open>\<^verbatim>\<open>type MetricType = "counter" | "gauge" | "distribution"\<close>\<close>

datatype MetricType = Counter | Gauge | Distribution

fun MetricType_string :: "MetricType \<Rightarrow> string" where
  "MetricType_string Counter = ''counter''"
| "MetricType_string Gauge = ''gauge''"
| "MetricType_string Distribution = ''distribution''"

text \<open>
  \<^verbatim>\<open>interface MetricOptions { unit?: string; attributes?: Record<string, AttributeValue> }\<close>.
  An object is the list of its entries in the order \<^verbatim>\<open>Object.entries\<close> yields them.
\<close>

record MetricOptions =
  opt_unit :: "string option"
  opt_attributes :: "(string \<times> AttributeValue) list option"

record FormattedAttribute =
  fa_value :: AttributeValue
  fa_type :: string

text \<open>The type \<^verbatim>\<open>Metric\<close> (first listing), \<^verbatim>\<open>MetricPayload\<close> (second listing).\<close>

record Metric =
  m_timestamp :: jsnum
  m_trace_id :: string
  m_name :: string
  m_value :: jsnum
  m_type :: MetricType
  m_unit :: "string option"
  m_attributes :: "(string \<times> FormattedAttribute) list option"

text \<open>\<^verbatim>\<open>typeof v\<close> on an attribute value.\<close>

fun typeof :: "AttributeValue \<Rightarrow> string" where
  "typeof (AString s) = ''string''"
| "typeof (ANumber n) = ''number''"
| "typeof (ABoolean b) = ''boolean''"

text \<open>
  \<^verbatim>\<open>Number.isInteger(v)\<close>: false for what is not a number, for \<^verbatim>\<open>NaN\<close> and for the
  infinities; for a finite number, whether it equals its floor.
\<close>

fun Number_isInteger :: "AttributeValue \<Rightarrow> bool" where
  "Number_isInteger (ANumber (Finite q)) = (q = of_int \<lfloor>q\<rfloor>)"
| "Number_isInteger v = False"

subsection \<open>The platform\<close>

record URL =
  url_username :: string
  url_host :: string
  url_pathname :: string

record request =
  req_url :: string
  req_method :: string
  req_headers :: "(string \<times> string) list"
  req_body :: string

text \<open>How the promise returned by \<^verbatim>\<open>fetch\<close> settles: with a response (its HTTP status), or rejected.\<close>

datatype fetch_outcome = Resolves nat | Rejects string

text \<open>How a promise returned by an \<^verbatim>\<open>async\<close> function settles.\<close>

datatype 'a settled = Fulfilled 'a | Rejected string

text \<open>
  \<^item> \<open>parseURL\<close>: \<^verbatim>\<open>new URL(s)\<close>, \<open>None\<close> where it throws a \<^verbatim>\<open>TypeError\<close>;
  \<^item> \<open>toISOString\<close>: \<^verbatim>\<open>new Date(ms).toISOString()\<close>;
  \<^item> \<open>numberToString\<close>: the decimal text of a finite number;
  \<^item> \<open>network\<close>: how \<^verbatim>\<open>fetch\<close> settles for a request.
\<close>

record platform =
  parseURL :: "string \<Rightarrow> URL option"
  toISOString :: "nat \<Rightarrow> string"
  numberToString :: "rat \<Rightarrow> string"
  network :: "request \<Rightarrow> fetch_outcome"

text \<open>A source of random bytes: the \<open>i\<close>-th byte drawn in one call.\<close>

type_synonym entropy = "nat \<Rightarrow> 8 word"

datatype error = TypeError | Error string

subsection \<open>Strings and JSON\<close>

text \<open>\<^verbatim>\<open>Array.prototype.join\<close> on strings.\<close>

fun join :: "string \<Rightarrow> string list \<Rightarrow> string" where
  "join sep [] = []"
| "join sep [x] = x"
| "join sep (x # y # ys) = x @ sep @ join sep (y # ys)"

text \<open>\<^verbatim>\<open>n.toString(16)\<close> for a natural number, and \<^verbatim>\<open>s.padStart(k, c)\<close>.\<close>

definition hexdigit :: "nat \<Rightarrow> char" where
  "hexdigit d = ''0123456789abcdef'' ! d"

fun toString16 :: "nat \<Rightarrow> string" where
  "toString16 n =
     (if n < 16 then [hexdigit n] else toString16 (n div 16) @ [hexdigit (n mod 16)])"

declare toString16.simps [simp del]

definition padStart :: "nat \<Rightarrow> char \<Rightarrow> string \<Rightarrow> string" where
  "padStart k c s = replicate (k - length s) c @ s"

datatype json =
    JString string
  | JNumber jsnum
  | JBool bool
  | JArray "json list"
  | JObject "(string \<times> json) list"

text \<open>
  \<^verbatim>\<open>QuoteJSONString\<close> of ECMA-262: the two-character escapes, \<^verbatim>\<open>\u00xx\<close> for the other
  control characters, every other character as it is.
\<close>

definition backslash :: char where
  "backslash = CHR 0x5C"

definition quote_char :: "char \<Rightarrow> string" where
  "quote_char c =
     (if c = CHR 0x08 then [backslash, CHR ''b'']
      else if c = CHR 0x09 then [backslash, CHR ''t'']
      else if c = CHR 0x0A then [backslash, CHR ''n'']
      else if c = CHR 0x0C then [backslash, CHR ''f'']
      else if c = CHR 0x0D then [backslash, CHR ''r'']
      else if c = CHR 0x22 then [backslash, CHR 0x22]
      else if c = backslash then [backslash, backslash]
      else if (of_char c :: nat) < 32
        then [backslash, CHR ''u''] @ padStart 4 CHR ''0'' (toString16 (of_char c))
      else [c])"

definition QuoteJSONString :: "string \<Rightarrow> string" where
  "QuoteJSONString s = [CHR 0x22] @ concat (map quote_char s) @ [CHR 0x22]"

text \<open>\<^verbatim>\<open>JSON.stringify\<close> without indentation; a number that is not finite prints as \<^verbatim>\<open>null\<close>.\<close>

fun JSON_stringify :: "platform \<Rightarrow> json \<Rightarrow> string" where
  "JSON_stringify p (JString s) = QuoteJSONString s"
| "JSON_stringify p (JNumber n) =
     (case n of Finite q \<Rightarrow> numberToString p q | _ \<Rightarrow> ''null'')"
| "JSON_stringify p (JBool b) = (if b then ''true'' else ''false'')"
| "JSON_stringify p (JArray xs) = ''['' @ join '','' (map (JSON_stringify p) xs) @ '']''"
| "JSON_stringify p (JObject kvs) =
     ''{'' @ join '','' (map (\<lambda>kv. QuoteJSONString (fst kv) @ '':'' @ JSON_stringify p (snd kv)) kvs)
       @ ''}''"

text \<open>The JSON value of an attribute value, of a formatted attribute and of a metric.\<close>

fun AttributeValue_json :: "AttributeValue \<Rightarrow> json" where
  "AttributeValue_json (AString s) = JString s"
| "AttributeValue_json (ANumber n) = JNumber n"
| "AttributeValue_json (ABoolean b) = JBool b"

definition FormattedAttribute_json :: "FormattedAttribute \<Rightarrow> json" where
  "FormattedAttribute_json a =
     JObject [(''value'', AttributeValue_json (fa_value a)), (''type'', JString (fa_type a))]"

text \<open>
  The properties in the order the code assigns them; \<^verbatim>\<open>unit\<close> and \<^verbatim>\<open>attributes\<close> are
  properties of the object only when the code has assigned them.
\<close>

definition Metric_json :: "Metric \<Rightarrow> json" where
  "Metric_json m =
     JObject
       ([(''timestamp'', JNumber (m_timestamp m)),
         (''trace_id'', JString (m_trace_id m)),
         (''name'', JString (m_name m)),
         (''value'', JNumber (m_value m)),
         (''type'', JString (MetricType_string (m_type m)))]
        @ (case m_unit m of None \<Rightarrow> [] | Some u \<Rightarrow> [(''unit'', JString u)])
        @ (case m_attributes m of None \<Rightarrow> []
           | Some a \<Rightarrow>
               [(''attributes'', JObject (map (\<lambda>kv. (fst kv, FormattedAttribute_json (snd kv))) a))]))"

subsection \<open>Timeouts, the clock and the network\<close>

text \<open>
  A handle of \<^verbatim>\<open>setTimeout\<close>: a \<^verbatim>\<open>Timeout\<close> object or a positive integer, truthy in
  both cases.
\<close>

datatype handle = Timeout nat

text \<open>
  A call of \<^verbatim>\<open>fetch\<close> as the platform saw it: the request, and the timeouts that were
  live at that moment.
\<close>

record fetch_call =
  fc_request :: request
  fc_timeouts :: "(handle \<times> nat) list"

text \<open>
  The state of one client: the constants and variables of the closure (\<open>dsn\<close>,
  \<open>publicKey\<close>, \<open>envelopeUrl\<close>, \<open>buffer\<close>, \<open>timer\<close>) and the platform as this
  client sees it: the clock in milliseconds (\<^verbatim>\<open>Date.now()\<close>), the live timeouts with the
  time each is due, the next handle, and the calls of \<^verbatim>\<open>fetch\<close> so far.
\<close>

record state =
  dsn :: string
  publicKey :: string
  envelopeUrl :: string
  buffer :: "Metric list"
  timer :: "handle option"
  clock :: nat
  timeouts :: "(handle \<times> nat) list"
  next_handle :: nat
  requests :: "fetch_call list"

definition setTimeout :: "nat \<Rightarrow> state \<Rightarrow> handle \<times> state" where
  "setTimeout delay st =
     (Timeout (next_handle st),
      st\<lparr>timeouts := timeouts st @ [(Timeout (next_handle st), clock st + delay)],
         next_handle := Suc (next_handle st)\<rparr>)"

definition clearTimeout :: "handle \<Rightarrow> state \<Rightarrow> state" where
  "clearTimeout h st = st\<lparr>timeouts := filter (\<lambda>t. fst t \<noteq> h) (timeouts st)\<rparr>"

definition fetch :: "platform \<Rightarrow> request \<Rightarrow> state \<Rightarrow> fetch_outcome \<times> state" where
  "fetch p req st =
     (network p req,
      st\<lparr>requests := requests st @ [\<lparr>fc_request = req, fc_timeouts = timeouts st\<rparr>]\<rparr>)"

text \<open>
  \<^verbatim>\<open>crypto.getRandomValues(bytes)\<close> overwrites every element of the array;
  \<^verbatim>\<open>crypto.randomUUID()\<close> draws 16 bytes, sets the version and variant bits and prints
  them in groups of 4, 2, 2, 2 and 6 bytes.
\<close>

definition getRandomValues :: "entropy \<Rightarrow> 8 word list \<Rightarrow> 8 word list" where
  "getRandomValues rnd bytes = map rnd [0..<length bytes]"

definition hex_byte :: "8 word \<Rightarrow> string" where
  "hex_byte b = padStart 2 CHR ''0'' (toString16 (unat b))"

definition uuid_bytes :: "entropy \<Rightarrow> 8 word list" where
  "uuid_bytes rnd =
     (let bytes = map rnd [0..<16];
          bytes = bytes[6 := or (and (bytes ! 6) 0x0F) 0x40];
          bytes = bytes[8 := or (and (bytes ! 8) 0x3F) 0x80]
      in bytes)"

definition randomUUID :: "entropy \<Rightarrow> string" where
  "randomUUID rnd =
     (let hs = map hex_byte (uuid_bytes rnd)
      in concat (take 4 hs) @ ''-'' @ concat (take 2 (drop 4 hs)) @ ''-''
         @ concat (take 2 (drop 6 hs)) @ ''-'' @ concat (take 2 (drop 8 hs)) @ ''-''
         @ concat (drop 10 hs))"

text \<open>
  \<^verbatim>\<open>obj[k] = v\<close> on an ordinary object held as the list of its own entries, for a
  value \<open>v\<close> that is an object, as it is at both places of the code: an existing key
  keeps its place, a new key goes last. The key \<^verbatim>\<open>__proto__\<close> is the exception: the
  assignment calls the setter that \<^verbatim>\<open>Object.prototype\<close> has for it, which makes \<open>v\<close>
  the prototype of the object and stores no entry, so that \<^verbatim>\<open>JSON.stringify\<close>, which
  prints the own entries, prints nothing for it.
\<close>

fun assign :: "string \<Rightarrow> 'a \<Rightarrow> (string \<times> 'a) list \<Rightarrow> (string \<times> 'a) list" where
  "assign k v [] = (if k = ''__proto__'' then [] else [(k, v)])"
| "assign k v (e # es) =
     (if k = ''__proto__'' then e # es
      else if fst e = k then (k, v) # es
      else e # assign k v es)"

subsection \<open>First listing: \<^verbatim>\<open>createMetrics\<close>, \<^verbatim>\<open>flush\<close>, \<^verbatim>\<open>add\<close>\<close>

text \<open>
  \<^verbatim>\<open>flush\<close> is \<^verbatim>\<open>async\<close>: it runs up to the call of \<^verbatim>\<open>fetch\<close> at once and returns a
  promise. The \<^verbatim>\<open>await\<close> stands in a \<^verbatim>\<open>try\<close> whose \<^verbatim>\<open>catch\<close> block is empty, and
  nothing follows it: whatever \<^verbatim>\<open>fetch\<close> does, the promise is fulfilled.
\<close>

definition flush :: "platform \<Rightarrow> state \<Rightarrow> unit settled \<times> state" where
  "flush p st =
     (let st = (case timer st of
                  Some h \<Rightarrow> (clearTimeout h st)\<lparr>timer := None\<rparr>
                | None \<Rightarrow> st)
      in if length (buffer st) = 0 then (Fulfilled (), st)
         else
           let items = buffer st;
               st = st\<lparr>buffer := []\<rparr>;
               (outcome, st) =
                 fetch p
                   \<lparr>req_url = envelopeUrl st,
                    req_method = ''POST'',
                    req_headers =
                      [(''Content-Type'', ''application/x-sentry-envelope''),
                       (''X-Sentry-Auth'',
                        ''Sentry sentry_key='' @ publicKey st @ '', sentry_version=7'')],
                    req_body =
                      join [CHR 0x0A]
                        [JSON_stringify p
                           (JObject [(''dsn'', JString (dsn st)),
                                     (''sent_at'', JString (toISOString p (clock st)))]),
                         JSON_stringify p
                           (JObject
                              [(''type'', JString ''trace_metric''),
                               (''item_count'', JNumber (Finite (of_nat (length items)))),
                               (''content_type'',
                                JString ''application/vnd.sentry.items.trace-metric+json'')]),
                         JSON_stringify p (JObject [(''items'', JArray (map Metric_json items))])]\<rparr>
                   st
           in (case outcome of
                 Resolves status \<Rightarrow> Fulfilled ()
               | Rejects reason \<Rightarrow> Fulfilled (),
               st))"

text \<open>
  \<^verbatim>\<open>add\<close>. A unit is kept when \<^verbatim>\<open>options?.unit\<close> is truthy: supplied and not the empty
  string. Attributes are kept when \<^verbatim>\<open>options?.attributes\<close> is truthy: supplied (an
  object is truthy). The promise \<^verbatim>\<open>flush()\<close> returns is dropped.
\<close>

definition add ::
  "platform \<Rightarrow> string \<Rightarrow> jsnum \<Rightarrow> MetricType \<Rightarrow> MetricOptions option \<Rightarrow> entropy \<Rightarrow> state \<Rightarrow> state"
where
  "add p name val type options rnd st =
     (let metric =
            \<lparr>m_timestamp = Finite (of_nat (clock st) / 1000),
             m_trace_id = filter (\<lambda>c. c \<noteq> CHR ''-'') (randomUUID rnd),
             m_name = name,
             m_value = val,
             m_type = type,
             m_unit = None,
             m_attributes = None\<rparr>;
          metric =
            (case options of
               Some opts \<Rightarrow>
                 (case opt_unit opts of
                    Some u \<Rightarrow> if u \<noteq> [] then metric\<lparr>m_unit := Some u\<rparr> else metric
                  | None \<Rightarrow> metric)
             | None \<Rightarrow> metric);
          metric =
            (case options of
               Some opts \<Rightarrow>
                 (case opt_attributes opts of
                    Some attrs \<Rightarrow>
                      metric\<lparr>m_attributes :=
                        Some (foldl
                          (\<lambda>acc kv.
                             let t = typeof (snd kv)
                             in assign (fst kv)
                                  \<lparr>fa_value = snd kv,
                                   fa_type =
                                     (if t = ''number''
                                      then (if Number_isInteger (snd kv) then ''integer''
                                            else ''double'')
                                      else t)\<rparr>
                                  acc)
                          [] attrs)\<rparr>
                  | None \<Rightarrow> metric)
             | None \<Rightarrow> metric);
          st = st\<lparr>buffer := buffer st @ [metric]\<rparr>
      in if length (buffer st) \<ge> 100 then snd (flush p st)
         else (case timer st of
                 None \<Rightarrow> (let (h, st) = setTimeout 5000 st in st\<lparr>timer := Some h\<rparr>)
               | Some h \<Rightarrow> st))"

text \<open>The object \<^verbatim>\<open>createMetrics\<close> returns: the three recording operations and \<^verbatim>\<open>flush\<close>.\<close>

record Metrics =
  count_op :: "string \<Rightarrow> jsnum option \<Rightarrow> MetricOptions option \<Rightarrow> entropy \<Rightarrow> state \<Rightarrow> state"
  gauge_op :: "string \<Rightarrow> jsnum \<Rightarrow> MetricOptions option \<Rightarrow> entropy \<Rightarrow> state \<Rightarrow> state"
  distribution_op :: "string \<Rightarrow> jsnum \<Rightarrow> MetricOptions option \<Rightarrow> entropy \<Rightarrow> state \<Rightarrow> state"
  flush_op :: "state \<Rightarrow> unit settled \<times> state"

text \<open>\<^verbatim>\<open>count\<close> has the default \<^verbatim>\<open>value = 1\<close>.\<close>

definition metrics :: "platform \<Rightarrow> Metrics" where
  "metrics p =
     \<lparr>count_op = (\<lambda>name val options.
                    add p name (case val of None \<Rightarrow> Finite 1 | Some v \<Rightarrow> v) Counter options),
      gauge_op = (\<lambda>name val options. add p name val Gauge options),
      distribution_op = (\<lambda>name val options. add p name val Distribution options),
      flush_op = flush p\<rparr>"

text \<open>
  \<^verbatim>\<open>createMetrics(dsn)\<close>, called when the clock shows \<open>now\<close>. \<open>Inl\<close> is the exception
  thrown: the \<^verbatim>\<open>TypeError\<close> of \<^verbatim>\<open>new URL\<close>, or the error of the check. \<open>Inr\<close> is the
  object returned, with the state its closures share.
\<close>

definition createMetrics :: "platform \<Rightarrow> string \<Rightarrow> nat \<Rightarrow> error + Metrics \<times> state" where
  "createMetrics p dsn_arg now =
     (case parseURL p dsn_arg of
        None \<Rightarrow> Inl TypeError
      | Some url \<Rightarrow>
          let publicKey = url_username url
          in if publicKey = [] \<or> url_host url = [] \<or> drop 1 (url_pathname url) = []
             then Inl (Error ''Invalid DSN: missing required components'')
             else Inr (metrics p,
                       \<lparr>dsn = dsn_arg,
                        publicKey = publicKey,
                        envelopeUrl = ''https://'' @ url_host url @ ''/api'' @ url_pathname url
                                      @ ''/envelope/'',
                        buffer = [],
                        timer = None,
                        clock = now,
                        timeouts = [],
                        next_handle = 1,
                        requests = []\<rparr>))"

subsection \<open>Second listing: the named helpers\<close>

definition BUFFER_SIZE_LIMIT :: nat where
  "BUFFER_SIZE_LIMIT = 100"

definition FLUSH_INTERVAL_MS :: nat where
  "FLUSH_INTERVAL_MS = 5000"

record ParsedDSN =
  pd_publicKey :: string
  pd_host :: string
  pd_projectId :: string

definition parseDSN :: "platform \<Rightarrow> string \<Rightarrow> error + ParsedDSN" where
  "parseDSN p dsn_arg =
     (case parseURL p dsn_arg of
        None \<Rightarrow> Inl TypeError
      | Some url \<Rightarrow>
          let publicKey = url_username url;
              host = url_host url;
              projectId = drop 1 (url_pathname url)
          in if publicKey = [] \<or> host = [] \<or> projectId = []
             then Inl (Error ''Invalid DSN: missing required components'')
             else Inr \<lparr>pd_publicKey = publicKey, pd_host = host, pd_projectId = projectId\<rparr>)"

definition generateTraceId :: "entropy \<Rightarrow> string" where
  "generateTraceId rnd =
     (let bytes = replicate 16 (0 :: 8 word);
          bytes = getRandomValues rnd bytes
      in join [] (map (\<lambda>b. padStart 2 CHR ''0'' (toString16 (unat b))) bytes))"

text \<open>\<^verbatim>\<open>String(value)\<close>, which the \<^verbatim>\<open>default\<close> branch of the \<^verbatim>\<open>switch\<close> calls.\<close>

fun String_of :: "platform \<Rightarrow> AttributeValue \<Rightarrow> string" where
  "String_of p (AString s) = s"
| "String_of p (ABoolean b) = (if b then ''true'' else ''false'')"
| "String_of p (ANumber (Finite q)) = numberToString p q"
| "String_of p (ANumber NaN) = ''NaN''"
| "String_of p (ANumber PosInfinity) = ''Infinity''"
| "String_of p (ANumber NegInfinity) = ''-Infinity''"

definition formatAttributeValue :: "platform \<Rightarrow> AttributeValue \<Rightarrow> FormattedAttribute" where
  "formatAttributeValue p val =
     (let typeOfValue = typeof val
      in if typeOfValue = ''string'' then \<lparr>fa_value = val, fa_type = ''string''\<rparr>
         else if typeOfValue = ''boolean'' then \<lparr>fa_value = val, fa_type = ''boolean''\<rparr>
         else if typeOfValue = ''number''
           then (if Number_isInteger val then \<lparr>fa_value = val, fa_type = ''integer''\<rparr>
                 else \<lparr>fa_value = val, fa_type = ''double''\<rparr>)
         else \<lparr>fa_value = AString (String_of p val), fa_type = ''string''\<rparr>)"

definition formatAttributes ::
  "platform \<Rightarrow> (string \<times> AttributeValue) list option \<Rightarrow> (string \<times> FormattedAttribute) list option"
where
  "formatAttributes p attributes =
     (case attributes of
        None \<Rightarrow> None
      | Some attrs \<Rightarrow>
          Some (foldl (\<lambda>formatted kv. assign (fst kv) (formatAttributeValue p (snd kv)) formatted)
                  [] attrs))"

definition scheduleFlush :: "state \<Rightarrow> state" where
  "scheduleFlush st =
     (case timer st of
        Some h \<Rightarrow> st
      | None \<Rightarrow> (let (h, st) = setTimeout FLUSH_INTERVAL_MS st in st\<lparr>timer := Some h\<rparr>))"

definition buildEnvelope :: "platform \<Rightarrow> state \<Rightarrow> Metric list \<Rightarrow> string" where
  "buildEnvelope p st ms =
     (let header =
            JSON_stringify p
              (JObject [(''dsn'', JString (dsn st)),
                        (''sent_at'', JString (toISOString p (clock st)))]);
          itemHeader =
            JSON_stringify p
              (JObject
                 [(''type'', JString ''trace_metric''),
                  (''item_count'', JNumber (Finite (of_nat (length ms)))),
                  (''content_type'', JString ''application/vnd.sentry.items.trace-metric+json'')]);
          itemPayload = JSON_stringify p (JObject [(''items'', JArray (map Metric_json ms))])
      in header @ [CHR 0x0A] @ itemHeader @ [CHR 0x0A] @ itemPayload)"

definition flush2 :: "platform \<Rightarrow> state \<Rightarrow> unit settled \<times> state" where
  "flush2 p st =
     (let st = (case timer st of
                  Some h \<Rightarrow> (clearTimeout h st)\<lparr>timer := None\<rparr>
                | None \<Rightarrow> st)
      in if length (buffer st) = 0 then (Fulfilled (), st)
         else
           let metricsToSend = buffer st;
               st = st\<lparr>buffer := []\<rparr>;
               envelope = buildEnvelope p st metricsToSend;
               (outcome, st) =
                 fetch p
                   \<lparr>req_url = envelopeUrl st,
                    req_method = ''POST'',
                    req_headers =
                      [(''Content-Type'', ''application/x-sentry-envelope''),
                       (''X-Sentry-Auth'',
                        ''Sentry sentry_key='' @ publicKey st @ '', sentry_version=7'')],
                    req_body = envelope\<rparr>
                   st
           in (case outcome of
                 Resolves status \<Rightarrow> Fulfilled ()
               | Rejects reason \<Rightarrow> Fulfilled (),
               st))"

definition createMetric ::
  "platform \<Rightarrow> string \<Rightarrow> jsnum \<Rightarrow> MetricType \<Rightarrow> MetricOptions option \<Rightarrow> entropy \<Rightarrow> state \<Rightarrow> state"
where
  "createMetric p name val type options rnd st =
     (let metric =
            \<lparr>m_timestamp = Finite (of_nat (clock st) / 1000),
             m_trace_id = generateTraceId rnd,
             m_name = name,
             m_value = val,
             m_type = type,
             m_unit = None,
             m_attributes = None\<rparr>;
          metric =
            (case options of
               Some opts \<Rightarrow>
                 (case opt_unit opts of
                    Some u \<Rightarrow> if u \<noteq> [] then metric\<lparr>m_unit := Some u\<rparr> else metric
                  | None \<Rightarrow> metric)
             | None \<Rightarrow> metric);
          formattedAttributes =
            formatAttributes p (case options of Some opts \<Rightarrow> opt_attributes opts | None \<Rightarrow> None);
          metric =
            (case formattedAttributes of
               Some fa \<Rightarrow> metric\<lparr>m_attributes := Some fa\<rparr>
             | None \<Rightarrow> metric);
          st = st\<lparr>buffer := buffer st @ [metric]\<rparr>
      in if length (buffer st) \<ge> BUFFER_SIZE_LIMIT then snd (flush2 p st)
         else scheduleFlush st)"

definition metrics2 :: "platform \<Rightarrow> Metrics" where
  "metrics2 p =
     \<lparr>count_op = (\<lambda>name val options.
                    createMetric p name (case val of None \<Rightarrow> Finite 1 | Some v \<Rightarrow> v) Counter options),
      gauge_op = (\<lambda>name val options. createMetric p name val Gauge options),
      distribution_op = (\<lambda>name val options. createMetric p name val Distribution options),
      flush_op = flush2 p\<rparr>"

definition createMetrics2 :: "platform \<Rightarrow> string \<Rightarrow> nat \<Rightarrow> error + Metrics \<times> state" where
  "createMetrics2 p dsn_arg now =
     (case parseDSN p dsn_arg of
        Inl e \<Rightarrow> Inl e
      | Inr parsed \<Rightarrow>
          Inr (metrics2 p,
               \<lparr>dsn = dsn_arg,
                publicKey = pd_publicKey parsed,
                envelopeUrl = ''https://'' @ pd_host parsed @ ''/api/'' @ pd_projectId parsed
                              @ ''/envelope/'',
                buffer = [],
                timer = None,
                clock = now,
                timeouts = [],
                next_handle = 1,
                requests = []\<rparr>))"

subsection \<open>Callers and the event loop\<close>

text \<open>A recording call with its arguments.\<close>

datatype call =
    CallCount string "jsnum option" "MetricOptions option"
  | CallGauge string jsnum "MetricOptions option"
  | CallDistribution string jsnum "MetricOptions option"

fun invoke :: "Metrics \<Rightarrow> call \<Rightarrow> entropy \<Rightarrow> state \<Rightarrow> state" where
  "invoke m (CallCount name val options) rnd st = count_op m name val options rnd st"
| "invoke m (CallGauge name val options) rnd st = gauge_op m name val options rnd st"
| "invoke m (CallDistribution name val options) rnd st = distribution_op m name val options rnd st"

text \<open>
  What happens to a client: a recording call (with the random bytes it draws), a call
  of \<^verbatim>\<open>flush\<close>, or the event loop idling for some milliseconds, during which the
  timeouts that fall due fire.
\<close>

datatype event = Record call entropy | Flush | Elapse nat

text \<open>The live timeout that is due first, the earlier one set winning a tie.\<close>

fun earliest :: "(handle \<times> nat) list \<Rightarrow> (handle \<times> nat) option" where
  "earliest [] = None"
| "earliest (t # ts) =
     (case earliest ts of
        None \<Rightarrow> Some t
      | Some u \<Rightarrow> if snd t \<le> snd u then Some t else Some u)"

definition next_due :: "nat \<Rightarrow> (handle \<times> nat) list \<Rightarrow> (handle \<times> nat) option" where
  "next_due target ts =
     (case earliest ts of
        None \<Rightarrow> None
      | Some t \<Rightarrow> if snd t \<le> target then Some t else None)"

text \<open>
  Firing the timeouts due up to \<open>target\<close>: the one due first leaves the table, the clock
  shows its time, and its callback (the client's \<^verbatim>\<open>flush\<close>) runs. The first argument
  bounds the number of firings; \<open>elapse\<close> gives as many as timeouts are live.
\<close>

fun fire :: "nat \<Rightarrow> Metrics \<Rightarrow> nat \<Rightarrow> state \<Rightarrow> state" where
  "fire 0 m target st = st"
| "fire (Suc n) m target st =
     (case next_due target (timeouts st) of
        None \<Rightarrow> st
      | Some t \<Rightarrow>
          fire n m target
            (snd (flush_op m
                    (st\<lparr>timeouts := filter (\<lambda>u. fst u \<noteq> fst t) (timeouts st),
                        clock := max (clock st) (snd t)\<rparr>))))"

definition elapse :: "Metrics \<Rightarrow> nat \<Rightarrow> state \<Rightarrow> state" where
  "elapse m d st =
     (let target = clock st + d;
          st = fire (length (timeouts st)) m target st
      in st\<lparr>clock := target\<rparr>)"

fun step :: "Metrics \<Rightarrow> state \<Rightarrow> event \<Rightarrow> state" where
  "step m st (Record c rnd) = invoke m c rnd st"
| "step m st Flush = snd (flush_op m st)"
| "step m st (Elapse d) = elapse m d st"

definition run :: "Metrics \<Rightarrow> event list \<Rightarrow> state \<Rightarrow> state" where
  "run m es st = foldl (step m) st es"

subsection \<open>What the two listings share\<close>

text \<open>
  Both recording functions end alike: the metric is appended, and the buffer is
  flushed at 100 entries or a timeout of 5000 ms is set unless one is pending. \<open>push\<close>
  is that common tail, and \<open>add_metric\<close> and \<open>createMetric_metric\<close> are the metrics
  the two functions build before it; the lemmas \<open>add_push\<close> and \<open>createMetric_push\<close>
  below show that they are nothing else.
\<close>

definition push :: "platform \<Rightarrow> Metric \<Rightarrow> state \<Rightarrow> state" where
  "push p metric st =
     (let st = st\<lparr>buffer := buffer st @ [metric]\<rparr>
      in if length (buffer st) \<ge> 100 then snd (flush p st)
         else (case timer st of
                 None \<Rightarrow> (let (h, st) = setTimeout 5000 st in st\<lparr>timer := Some h\<rparr>)
               | Some h \<Rightarrow> st))"

definition add_attributes :: "(string \<times> AttributeValue) list \<Rightarrow> (string \<times> FormattedAttribute) list" where
  "add_attributes attrs =
     foldl
       (\<lambda>acc kv.
          let t = typeof (snd kv)
          in assign (fst kv)
               \<lparr>fa_value = snd kv,
                fa_type =
                  (if t = ''number''
                   then (if Number_isInteger (snd kv) then ''integer'' else ''double'')
                   else t)\<rparr>
               acc)
       [] attrs"

definition truthy_unit :: "MetricOptions option \<Rightarrow> string option" where
  "truthy_unit options =
     (case options of
        None \<Rightarrow> None
      | Some opts \<Rightarrow> (case opt_unit opts of None \<Rightarrow> None | Some u \<Rightarrow> if u \<noteq> [] then Some u else None))"

definition add_metric ::
  "string \<Rightarrow> jsnum \<Rightarrow> MetricType \<Rightarrow> MetricOptions option \<Rightarrow> entropy \<Rightarrow> nat \<Rightarrow> Metric"
where
  "add_metric name val type options rnd now =
     \<lparr>m_timestamp = Finite (of_nat now / 1000),
      m_trace_id = filter (\<lambda>c. c \<noteq> CHR ''-'') (randomUUID rnd),
      m_name = name,
      m_value = val,
      m_type = type,
      m_unit = truthy_unit options,
      m_attributes =
        (case options of
           None \<Rightarrow> None
         | Some opts \<Rightarrow> map_option add_attributes (opt_attributes opts))\<rparr>"

definition createMetric_metric ::
  "platform \<Rightarrow> string \<Rightarrow> jsnum \<Rightarrow> MetricType \<Rightarrow> MetricOptions option \<Rightarrow> entropy \<Rightarrow> nat \<Rightarrow> Metric"
where
  "createMetric_metric p name val type options rnd now =
     \<lparr>m_timestamp = Finite (of_nat now / 1000),
      m_trace_id = generateTraceId rnd,
      m_name = name,
      m_value = val,
      m_type = type,
      m_unit = truthy_unit options,
      m_attributes =
        formatAttributes p (case options of Some opts \<Rightarrow> opt_attributes opts | None \<Rightarrow> None)\<rparr>"

text \<open>The metric a recording call appends, in the first and in the second listing.\<close>

fun call_metric :: "call \<Rightarrow> entropy \<Rightarrow> nat \<Rightarrow> Metric" where
  "call_metric (CallCount name val options) rnd now =
     add_metric name (case val of None \<Rightarrow> Finite 1 | Some v \<Rightarrow> v) Counter options rnd now"
| "call_metric (CallGauge name val options) rnd now = add_metric name val Gauge options rnd now"
| "call_metric (CallDistribution name val options) rnd now =
     add_metric name val Distribution options rnd now"

fun call_metric2 :: "platform \<Rightarrow> call \<Rightarrow> entropy \<Rightarrow> nat \<Rightarrow> Metric" where
  "call_metric2 p (CallCount name val options) rnd now =
     createMetric_metric p name (case val of None \<Rightarrow> Finite 1 | Some v \<Rightarrow> v) Counter options rnd now"
| "call_metric2 p (CallGauge name val options) rnd now =
     createMetric_metric p name val Gauge options rnd now"
| "call_metric2 p (CallDistribution name val options) rnd now =
     createMetric_metric p name val Distribution options rnd now"

text \<open>
  A client \<open>m\<close> on platform \<open>p\<close> whose recording calls append the metric \<open>enc\<close> gives
  and then do as \<open>push\<close>, and whose \<^verbatim>\<open>flush\<close> is \<open>flush p\<close>.
\<close>

definition client :: "Metrics \<Rightarrow> platform \<Rightarrow> (call \<Rightarrow> entropy \<Rightarrow> nat \<Rightarrow> Metric) \<Rightarrow> bool" where
  "client m p enc =
     ((\<forall>c rnd st. invoke m c rnd st = push p (enc c rnd (clock st)) st) \<and> flush_op m = flush p)"

text \<open>
  The request a flush sends for the buffer of a state, and the timeouts that are still
  live once \<^verbatim>\<open>flush\<close> has cleared the client's own.
\<close>

definition drain_request :: "platform \<Rightarrow> state \<Rightarrow> request" where
  "drain_request p st =
     \<lparr>req_url = envelopeUrl st,
      req_method = ''POST'',
      req_headers =
        [(''Content-Type'', ''application/x-sentry-envelope''),
         (''X-Sentry-Auth'', ''Sentry sentry_key='' @ publicKey st @ '', sentry_version=7'')],
      req_body = buildEnvelope p st (buffer st)\<rparr>"

definition cancelled :: "state \<Rightarrow> (handle \<times> nat) list" where
  "cancelled st =
     (case timer st of
        Some h \<Rightarrow> filter (\<lambda>t. fst t \<noteq> h) (timeouts st)
      | None \<Rightarrow> timeouts st)"

subsection \<open>States and traces\<close>

text \<open>
  Between two operations a client is idle (nothing buffered, no timeout) or
  accumulating (fewer than 100 metrics buffered, and its one timeout live and due
  within the next 5000 ms).
\<close>

definition idle :: "state \<Rightarrow> bool" where
  "idle st = (buffer st = [] \<and> timer st = None \<and> timeouts st = [])"

definition accumulating :: "state \<Rightarrow> bool" where
  "accumulating st =
     (buffer st \<noteq> [] \<and> length (buffer st) < 100 \<and>
      (case timer st of
         None \<Rightarrow> False
       | Some h \<Rightarrow>
           (case timeouts st of
              [t] \<Rightarrow> fst t = h \<and> clock st < snd t \<and> snd t \<le> clock st + 5000
            | _ \<Rightarrow> False)))"

text \<open>The two listings, each with the metric its recording calls build.\<close>

definition listing :: "platform \<Rightarrow> Metrics \<Rightarrow> (call \<Rightarrow> entropy \<Rightarrow> nat \<Rightarrow> Metric) \<Rightarrow> bool" where
  "listing p m enc = (m = metrics p \<and> enc = call_metric \<or> m = metrics2 p \<and> enc = call_metric2 p)"

text \<open>
  Of a trace: whether an event is a manual flush, the number of recording calls, the
  milliseconds that elapse in all, before the first recording call and after it, and
  the metrics its recording calls build when the clock shows \<open>now\<close> at its start.
\<close>

fun is_flush :: "event \<Rightarrow> bool" where
  "is_flush Flush = True"
| "is_flush e = False"

fun count_records :: "event list \<Rightarrow> nat" where
  "count_records [] = 0"
| "count_records (Record c rnd # es) = Suc (count_records es)"
| "count_records (e # es) = count_records es"

fun total_elapse :: "event list \<Rightarrow> nat" where
  "total_elapse [] = 0"
| "total_elapse (Elapse d # es) = d + total_elapse es"
| "total_elapse (e # es) = total_elapse es"

fun before_first_record :: "event list \<Rightarrow> nat" where
  "before_first_record [] = 0"
| "before_first_record (Record c rnd # es) = 0"
| "before_first_record (Elapse d # es) = d + before_first_record es"
| "before_first_record (Flush # es) = before_first_record es"

fun since_first_record :: "event list \<Rightarrow> nat" where
  "since_first_record [] = 0"
| "since_first_record (Record c rnd # es) = total_elapse es"
| "since_first_record (e # es) = since_first_record es"

fun recorded :: "(call \<Rightarrow> entropy \<Rightarrow> nat \<Rightarrow> Metric) \<Rightarrow> nat \<Rightarrow> event list \<Rightarrow> Metric list" where
  "recorded enc now [] = []"
| "recorded enc now (Record c rnd # es) = enc c rnd now # recorded enc now es"
| "recorded enc now (Elapse d # es) = recorded enc (now + d) es"
| "recorded enc now (Flush # es) = recorded enc now es"

text \<open>
  A fresh client: what \<^verbatim>\<open>createMetrics\<close> returns, in the first or in the second
  listing, together with the metric its recording calls build.
\<close>

definition created ::
  "platform \<Rightarrow> string \<Rightarrow> nat \<Rightarrow> Metrics \<Rightarrow> (call \<Rightarrow> entropy \<Rightarrow> nat \<Rightarrow> Metric) \<Rightarrow> state \<Rightarrow> bool"
where
  "created p d now m enc st =
     (createMetrics p d now = Inr (m, st) \<and> enc = call_metric \<or>
      createMetrics2 p d now = Inr (m, st) \<and> enc = call_metric2 p)"

subsection \<open>A sample platform and sample inputs\<close>

text \<open>
  A platform to evaluate the definitions on: a URL parser that knows the addresses of
  the test suite, a fixed date, numbers in decimal notation with at most three
  decimals, and a network on which every request fails.
\<close>

fun digits :: "nat \<Rightarrow> string" where
  "digits n = (if n < 10 then [hexdigit n] else digits (n div 10) @ [hexdigit (n mod 10)])"

declare digits.simps [simp del]

fun fraction :: "nat \<Rightarrow> rat \<Rightarrow> string" where
  "fraction 0 r = []"
| "fraction (Suc k) r =
     (if r = 0 then []
      else digits (nat \<lfloor>r * 10\<rfloor>) @ fraction k (r * 10 - of_int \<lfloor>r * 10\<rfloor>))"

definition example_number :: "rat \<Rightarrow> string" where
  "example_number q =
     (if q < 0 then ''-'' else []) @ digits (nat \<lfloor>\<bar>q\<bar>\<rfloor>)
     @ (if q = of_int \<lfloor>q\<rfloor> then [] else ''.'' @ fraction 3 (\<bar>q\<bar> - of_int \<lfloor>\<bar>q\<bar>\<rfloor>))"

definition example_parseURL :: "string \<Rightarrow> URL option" where
  "example_parseURL s =
     (if s = ''https://abc123@o123456.ingest.sentry.io/4567890''
      then Some \<lparr>url_username = ''abc123'', url_host = ''o123456.ingest.sentry.io'',
                 url_pathname = ''/4567890''\<rparr>
      else if s = ''https://example.com''
      then Some \<lparr>url_username = [], url_host = ''example.com'', url_pathname = ''/''\<rparr>
      else None)"

definition example_platform :: platform where
  "example_platform =
     \<lparr>parseURL = example_parseURL,
      toISOString = (\<lambda>ms. ''2024-01-15T10:00:00.000Z''),
      numberToString = example_number,
      network = (\<lambda>req. Rejects ''Failed to fetch'')\<rparr>"

definition example_state :: state where
  "example_state =
     \<lparr>dsn = ''https://abc123@o123456.ingest.sentry.io/4567890'',
      publicKey = ''abc123'',
      envelopeUrl = ''https://o123456.ingest.sentry.io/api/4567890/envelope/'',
      buffer = [],
      timer = None,
      clock = 1705312800000,
      timeouts = [],
      next_handle = 1,
      requests = []\<rparr>"

definition example_call :: event where
  "example_call = Record (CallCount ''api.requests'' None None) (\<lambda>i. 0)"

definition example_trace :: "event list" where
  "example_trace = example_call # Elapse 4999 # replicate 98 example_call"

text \<open>
  What holds of a client between two operations: it is idle or accumulating, and
  every request so far was made while no timeout was live.
\<close>

definition stable :: "state \<Rightarrow> bool" where
  "stable st = ((idle st \<or> accumulating st) \<and> list_all (\<lambda>f. fc_timeouts f = []) (requests st))"

definition example_attributes :: "(string \<times> AttributeValue) list" where
  "example_attributes =
     [(''route'', AString ''/checkout''), (''count'', ANumber (Finite 42)),
      (''active'', ABoolean True), (''amount'', ANumber (Finite (375 / 2)))]"

definition example_entropy :: entropy where
  "example_entropy i = word_of_nat (17 * i)"

subsection \<open>The specification's vocabulary\<close>

text \<open>
  The kind of a tag value as the specification words it: a string is a \<open>string\<close>, a
  boolean a \<open>boolean\<close>, a number with no fractional part an \<open>integer\<close> and any other
  number a \<open>double\<close>.
\<close>

fun attribute_kind :: "AttributeValue \<Rightarrow> string" where
  "attribute_kind (AString s) = ''string''"
| "attribute_kind (ABoolean b) = ''boolean''"
| "attribute_kind (ANumber (Finite q)) = (if frac q = 0 then ''integer'' else ''double'')"
| "attribute_kind (ANumber n) = ''double''"

text \<open>The property names of a JSON object, and the value of a property if it is there.\<close>

fun object_keys :: "json \<Rightarrow> string list" where
  "object_keys (JObject kvs) = map fst kvs"
| "object_keys j = []"

fun object_get :: "json \<Rightarrow> string \<Rightarrow> json option" where
  "object_get (JObject kvs) k = map_of kvs k"
| "object_get j k = None"

text \<open>The lowercase hexadecimal digits.\<close>

definition hexchars :: "char set" where
  "hexchars = set ''0123456789abcdef''"

text \<open>
  The line feed, and \<^verbatim>\<open>s.split(c)\<close> for a separator of one character: the segments
  of \<open>s\<close> between the occurrences of \<open>c\<close>.
\<close>

definition LF :: char where
  "LF = CHR 0x0A"

fun split_on :: "char \<Rightarrow> string \<Rightarrow> string list" where
  "split_on c [] = [[]]"
| "split_on c (x # xs) =
     (if x = c then [] # split_on c xs
      else (case split_on c xs of
              [] \<Rightarrow> [[x]]
            | s # ss \<Rightarrow> (x # s) # ss))"

text \<open>A recording call whose metric name contains a line feed.\<close>

definition example_newline_call :: event where
  "example_newline_call = Record (CallCount [CHR ''a'', CHR 0x0A, CHR ''b''] None None) (\<lambda>i. 0)"

section \<open>Properties\<close>

subsection \<open>The two listings agree\<close>

lemma flush2_flush: "flush2 p st = flush p st"
  by (simp add: flush2_def flush_def buildEnvelope_def Let_def split: option.splits)

lemma add_push: "add p name val type options rnd st = push p (add_metric name val type options rnd (clock st)) st"
  by (simp add: add_def push_def add_metric_def add_attributes_def truthy_unit_def Let_def
      split: option.splits)

lemma createMetric_push:
  "createMetric p name val type options rnd st =
     push p (createMetric_metric p name val type options rnd (clock st)) st"
  by (simp add: createMetric_def push_def createMetric_metric_def truthy_unit_def Let_def
      flush2_flush scheduleFlush_def BUFFER_SIZE_LIMIT_def FLUSH_INTERVAL_MS_def
      split: option.splits)

lemma client_metrics: "client (metrics p) p call_metric"
  unfolding client_def
proof (intro conjI allI)
  fix c rnd st
  show "invoke (metrics p) c rnd st = push p (call_metric c rnd (clock st)) st"
    by (cases c) (simp_all add: metrics_def add_push)
next
  show "flush_op (metrics p) = flush p"
    by (simp add: metrics_def)
qed

lemma client_metrics2: "client (metrics2 p) p (call_metric2 p)"
  unfolding client_def
proof (intro conjI allI)
  fix c rnd st
  show "invoke (metrics2 p) c rnd st = push p (call_metric2 p c rnd (clock st)) st"
    by (cases c) (simp_all add: metrics2_def createMetric_push)
next
  have "flush_op (metrics2 p) = flush2 p"
    by (simp add: metrics2_def)
  then show "flush_op (metrics2 p) = flush p"
    by (simp add: flush2_flush fun_eq_iff)
qed

subsection \<open>What \<^verbatim>\<open>flush\<close> and a recording call do to the state\<close>

lemma flush_fst: "fst (flush p st) = Fulfilled ()"
  by (simp add: flush_def fetch_def Let_def split: option.splits fetch_outcome.splits prod.splits)

lemma flush_snd:
  "snd (flush p st) =
     st\<lparr>buffer := [], timer := None, timeouts := cancelled st,
        requests := (if buffer st = [] then requests st
                     else requests st @ [\<lparr>fc_request = drain_request p st, fc_timeouts = cancelled st\<rparr>])\<rparr>"
  by (simp add: flush_def fetch_def Let_def clearTimeout_def cancelled_def drain_request_def
      buildEnvelope_def split: option.splits fetch_outcome.splits prod.splits)

subsection \<open>Accumulating below the threshold\<close>

lemma push_eq:
  "push p metric st =
     (if 99 \<le> length (buffer st) then snd (flush p (st\<lparr>buffer := buffer st @ [metric]\<rparr>))
      else (case timer st of
              None \<Rightarrow> st\<lparr>buffer := buffer st @ [metric],
                         timeouts := timeouts st @ [(Timeout (next_handle st), clock st + 5000)],
                         next_handle := Suc (next_handle st),
                         timer := Some (Timeout (next_handle st))\<rparr>
            | Some h \<Rightarrow> st\<lparr>buffer := buffer st @ [metric]\<rparr>))"
  by (auto simp add: push_def setTimeout_def Let_def split: option.splits)

lemma next_due_Nil: "next_due target [] = None"
  by (simp add: next_due_def)

lemma next_due_single: "next_due target [t] = (if snd t \<le> target then Some t else None)"
  by (simp add: next_due_def)

lemma elapse_no_timeouts: "timeouts st = [] \<Longrightarrow> elapse m d st = st\<lparr>clock := clock st + d\<rparr>"
  by (simp add: elapse_def)

lemma elapse_not_due:
  "timeouts st = [t] \<Longrightarrow> clock st + d < snd t \<Longrightarrow> elapse m d st = st\<lparr>clock := clock st + d\<rparr>"
  by (simp add: elapse_def next_due_single)

lemma elapse_due:
  "timeouts st = [t] \<Longrightarrow> snd t \<le> clock st + d \<Longrightarrow>
   elapse m d st =
     (snd (flush_op m (st\<lparr>timeouts := [], clock := max (clock st) (snd t)\<rparr>)))\<lparr>clock := clock st + d\<rparr>"
  by (simp add: elapse_def next_due_single)

lemma run_Nil: "run m [] st = st"
  by (simp add: run_def)

lemma run_Cons: "run m (e # es) st = run m es (step m st e)"
  by (simp add: run_def)

lemma run_append: "run m (es @ fs) st = run m fs (run m es st)"
  by (simp add: run_def)

lemma client_invoke: "client m p enc \<Longrightarrow> invoke m c rnd st = push p (enc c rnd (clock st)) st"
  by (simp add: client_def)

lemma client_flush: "client m p enc \<Longrightarrow> flush_op m st = flush p st"
  by (simp add: client_def)

lemma accumulate_pending:
  assumes m: "client m p enc"
  shows "timer st = Some h \<Longrightarrow> timeouts st = [t] \<Longrightarrow> list_all (\<lambda>e. \<not> is_flush e) es \<Longrightarrow>
         length (buffer st) + count_records es < 100 \<Longrightarrow> clock st + total_elapse es < snd t \<Longrightarrow>
         run m es st =
           st\<lparr>buffer := buffer st @ recorded enc (clock st) es, clock := clock st + total_elapse es\<rparr>"
proof (induction es arbitrary: st)
  case Nil
  then show ?case by (simp add: run_Nil)
next
  case (Cons e es)
  show ?case
  proof (cases e)
    case (Record c rnd)
    let ?st = "st\<lparr>buffer := buffer st @ [enc c rnd (clock st)]\<rparr>"
    have s: "step m st e = ?st"
      using Cons.prems Record by (simp add: client_invoke [OF m] push_eq)
    have "run m es ?st =
            ?st\<lparr>buffer := buffer ?st @ recorded enc (clock ?st) es, clock := clock ?st + total_elapse es\<rparr>"
      using Cons.prems Record by (intro Cons.IH) simp_all
    then show ?thesis
      unfolding run_Cons s using Record by simp
  next
    case Flush
    then show ?thesis using Cons.prems by simp
  next
    case (Elapse d)
    let ?st = "st\<lparr>clock := clock st + d\<rparr>"
    have s: "step m st e = ?st"
      using Cons.prems Elapse by (simp add: elapse_not_due)
    have "run m es ?st =
            ?st\<lparr>buffer := buffer ?st @ recorded enc (clock ?st) es, clock := clock ?st + total_elapse es\<rparr>"
      using Cons.prems Elapse by (intro Cons.IH) simp_all
    then show ?thesis
      unfolding run_Cons s using Elapse by (simp add: add.assoc)
  qed
qed

lemma listing_client: "listing p m enc \<Longrightarrow> client m p enc"
  by (auto simp add: listing_def client_metrics client_metrics2)

lemma accumulate_idle:
  assumes m: "client m p enc"
  shows "idle st \<Longrightarrow> list_all (\<lambda>e. \<not> is_flush e) es \<Longrightarrow> count_records es < 100 \<Longrightarrow>
         since_first_record es < 5000 \<Longrightarrow>
         run m es st =
           (if count_records es = 0 then st\<lparr>clock := clock st + total_elapse es\<rparr>
            else st\<lparr>buffer := recorded enc (clock st) es,
                    clock := clock st + total_elapse es,
                    timeouts := [(Timeout (next_handle st), clock st + before_first_record es + 5000)],
                    next_handle := Suc (next_handle st),
                    timer := Some (Timeout (next_handle st))\<rparr>)"
proof (induction es arbitrary: st)
  case Nil
  then show ?case by (simp add: run_Nil)
next
  case (Cons e es)
  show ?case
  proof (cases e)
    case (Record c rnd)
    let ?st = "st\<lparr>buffer := buffer st @ [enc c rnd (clock st)],
                  timeouts := timeouts st @ [(Timeout (next_handle st), clock st + 5000)],
                  next_handle := Suc (next_handle st),
                  timer := Some (Timeout (next_handle st))\<rparr>"
    have s: "step m st e = ?st"
      using Cons.prems Record by (simp add: client_invoke [OF m] push_eq idle_def)
    have "run m es ?st =
            ?st\<lparr>buffer := buffer ?st @ recorded enc (clock ?st) es, clock := clock ?st + total_elapse es\<rparr>"
      using Cons.prems Record
      by (intro accumulate_pending [OF m, where h = "Timeout (next_handle st)"
            and t = "(Timeout (next_handle st), clock st + 5000)"])
         (simp_all add: idle_def)
    then show ?thesis
      unfolding run_Cons s using Record Cons.prems by (simp add: idle_def)
  next
    case Flush
    then show ?thesis using Cons.prems by simp
  next
    case (Elapse d)
    let ?st = "st\<lparr>clock := clock st + d\<rparr>"
    have s: "step m st e = ?st"
      using Cons.prems Elapse by (simp add: elapse_no_timeouts idle_def)
    have "run m es ?st =
           (if count_records es = 0 then ?st\<lparr>clock := clock ?st + total_elapse es\<rparr>
            else ?st\<lparr>buffer := recorded enc (clock ?st) es,
                    clock := clock ?st + total_elapse es,
                    timeouts := [(Timeout (next_handle ?st), clock ?st + before_first_record es + 5000)],
                    next_handle := Suc (next_handle ?st),
                    timer := Some (Timeout (next_handle ?st))\<rparr>)"
      using Cons.prems Elapse by (intro Cons.IH) (simp_all add: idle_def)
    then show ?thesis
      unfolding run_Cons s using Elapse by (simp add: add.assoc)
  qed
qed

lemma length_recorded: "length (recorded enc now es) = count_records es"
  by (induction enc now es rule: recorded.induct) simp_all

lemma recorded_append:
  "recorded enc now (es @ fs) = recorded enc now es @ recorded enc (now + total_elapse es) fs"
  by (induction enc now es rule: recorded.induct) (simp_all add: add.assoc)

subsection \<open>Fresh clients and sample inputs\<close>

lemma created_fresh:
  "created p d now m enc st \<Longrightarrow>
     listing p m enc \<and> idle st \<and> requests st = [] \<and> clock st = now \<and> dsn st = d \<and> next_handle st = 1"
  by (auto simp add: created_def listing_def idle_def createMetrics_def createMetrics2_def
      parseDSN_def Let_def split: option.splits if_splits sum.splits)

lemma example_created:
  "created example_platform ''https://abc123@o123456.ingest.sentry.io/4567890'' 1705312800000
     (metrics example_platform) call_metric example_state"
  by (simp add: created_def createMetrics_def example_platform_def example_parseURL_def
      example_state_def)

lemma example_created2:
  "created example_platform ''https://abc123@o123456.ingest.sentry.io/4567890'' 1705312800000
     (metrics2 example_platform) (call_metric2 example_platform) example_state"
  by (simp add: created_def createMetrics2_def parseDSN_def example_platform_def example_parseURL_def
      example_state_def)

lemma total_elapse_append: "total_elapse (es @ fs) = total_elapse es + total_elapse fs"
  by (induction es rule: total_elapse.induct) simp_all

lemma count_records_append: "count_records (es @ fs) = count_records es + count_records fs"
  by (induction es rule: count_records.induct) simp_all

lemma since_first_record_append:
  "0 < count_records es \<Longrightarrow> since_first_record (es @ fs) = since_first_record es + total_elapse fs"
  by (induction es rule: since_first_record.induct) (simp_all add: total_elapse_append)

lemma is_flush_append:
  "list_all (\<lambda>e. \<not> is_flush e) (es @ fs) =
     (list_all (\<lambda>e. \<not> is_flush e) es \<and> list_all (\<lambda>e. \<not> is_flush e) fs)"
  by simp

lemma replicate_example_call:
  "count_records (replicate n example_call) = n"
  "total_elapse (replicate n example_call) = 0"
  "list_all (\<lambda>e. \<not> is_flush e) (replicate n example_call)"
  by (induction n) (simp_all add: example_call_def)

lemma example_trace_facts:
  "list_all (\<lambda>e. \<not> is_flush e) example_trace"
  "count_records example_trace = 99"
  "since_first_record example_trace = 4999"
  "total_elapse example_trace = 4999"
  using replicate_example_call [of 98]
  by (simp_all add: example_trace_def) (simp_all add: example_call_def)

subsection \<open>C1: the hundredth recording call drains the buffer\<close>

text \<open>
  C1. A fresh client receives 100 recording calls and no call of \<^verbatim>\<open>flush\<close>; the event
  loop may idle between the calls as long as the timeout set by the first call has not
  fallen due. When the 99th call has returned no request has been made; when the 100th
  call returns exactly one request has been made, its body is the envelope of the 100
  metrics recorded, in the order of the calls, the buffer is empty and no timeout is
  live. This holds for both listings.
\<close>

theorem hundredth_record_drains:
  assumes "created p d now m enc st"
    and "list_all (\<lambda>e. \<not> is_flush e) es"
    and "count_records es = 99"
    and "since_first_record es < 5000"
  shows "requests (run m es st) = [] \<and>
         length (recorded enc now (es @ [Record c rnd])) = 100 \<and>
         requests (run m (es @ [Record c rnd]) st) =
           [\<lparr>fc_request =
               drain_request p
                 (st\<lparr>buffer := recorded enc now (es @ [Record c rnd]),
                     clock := now + total_elapse es\<rparr>),
              fc_timeouts = []\<rparr>] \<and>
         buffer (run m (es @ [Record c rnd]) st) = [] \<and>
         timer (run m (es @ [Record c rnd]) st) = None \<and>
         timeouts (run m (es @ [Record c rnd]) st) = []"
proof -
  from assms(1) have l: "listing p m enc" and i: "idle st" and r: "requests st = []"
    and c: "clock st = now"
    using created_fresh by blast+
  have m: "client m p enc" using l by (rule listing_client)
  let ?st = "st\<lparr>buffer := recorded enc (clock st) es,
                clock := clock st + total_elapse es,
                timeouts := [(Timeout (next_handle st), clock st + before_first_record es + 5000)],
                next_handle := Suc (next_handle st),
                timer := Some (Timeout (next_handle st))\<rparr>"
  have a: "run m es st = ?st"
    using accumulate_idle [OF m i assms(2)] assms(3,4) by simp
  have len: "length (recorded enc (clock st) es) = 99"
    using assms(3) by (simp add: length_recorded)
  have b: "run m (es @ [Record c rnd]) st = push p (enc c rnd (clock st + total_elapse es)) ?st"
    by (simp add: run_append a run_Cons run_Nil client_invoke [OF m])
  have d: "drain_request p (?st\<lparr>buffer := recorded enc (clock st) es @ [enc c rnd (clock st + total_elapse es)]\<rparr>)
     = drain_request p
                 (st\<lparr>buffer := recorded enc (clock st) (es @ [Record c rnd]),
                     clock := clock st + total_elapse es\<rparr>)"
    by (simp add: drain_request_def buildEnvelope_def recorded_append)
  show ?thesis
    unfolding b unfolding a using len r c d
    by (simp add: push_eq flush_snd cancelled_def length_recorded count_records_append assms(3))
qed

theorem hundredth_record_drains_witness:
  "created example_platform ''https://abc123@o123456.ingest.sentry.io/4567890'' 1705312800000
     (metrics example_platform) call_metric example_state \<and>
   list_all (\<lambda>e. \<not> is_flush e) example_trace \<and>
   count_records example_trace = 99 \<and>
   since_first_record example_trace < 5000 \<and>
   requests (run (metrics example_platform) example_trace example_state) = [] \<and>
   length (requests (run (metrics example_platform) (example_trace @ [example_call]) example_state)) = 1 \<and>
   buffer (run (metrics example_platform) (example_trace @ [example_call]) example_state) = []"
proof -
  have h4: "since_first_record example_trace < 5000"
    by (simp add: example_trace_facts)
  show ?thesis
    using hundredth_record_drains [OF example_created example_trace_facts(1,2) h4,
        of "CallCount ''api.requests'' None None" "\<lambda>i. 0"]
      example_created example_trace_facts(1,2) h4
    by (simp add: example_call_def)
qed

subsection \<open>C5: no request before the deadline\<close>

lemma elapse_split: "total_elapse es = before_first_record es + since_first_record es"
  by (induction es rule: before_first_record.induct) simp_all

text \<open>
  C5. A client with nothing pending receives fewer than 100 recording calls, so that
  the buffer stays below the threshold, and no call of \<^verbatim>\<open>flush\<close>, and less than
  5000 ms elapse after the first of the calls, which sets the timeout. Then no request
  is made: the buffer holds every metric recorded, and the timeout is due 5000 ms
  after the first call. The first request is made when \<^verbatim>\<open>flush\<close> is called or when
  the 5000 ms have elapsed, and it carries the buffered metrics. This holds for both
  listings.
\<close>

theorem no_request_before_deadline:
  assumes "listing p m enc"
    and "idle st"
    and "list_all (\<lambda>e. \<not> is_flush e) es"
    and "count_records es < 100"
    and "since_first_record es < 5000"
  shows "requests (run m es st) = requests st \<and>
         buffer (run m es st) = recorded enc (clock st) es \<and>
         length (buffer (run m es st)) = count_records es \<and>
         (0 < count_records es \<longrightarrow>
            timeouts (run m es st) =
              [(Timeout (next_handle st), clock st + before_first_record es + 5000)] \<and>
            requests (run m (es @ [Flush]) st) =
              requests st @
              [\<lparr>fc_request =
                  drain_request p
                    (st\<lparr>buffer := recorded enc (clock st) es,
                        clock := clock st + total_elapse es\<rparr>),
                fc_timeouts = []\<rparr>] \<and>
            (\<forall>d. 5000 \<le> since_first_record es + d \<longrightarrow>
               requests (run m (es @ [Elapse d]) st) =
                 requests st @
                 [\<lparr>fc_request =
                     drain_request p
                       (st\<lparr>buffer := recorded enc (clock st) es,
                           clock := clock st + before_first_record es + 5000\<rparr>),
                   fc_timeouts = []\<rparr>]))"
proof -
  have m: "client m p enc" using assms(1) by (rule listing_client)
  note a = accumulate_idle [OF m assms(2,3,4,5)]
  have f: "run m (es @ [Flush]) st = snd (flush p (run m es st))"
    by (simp add: run_append run_Cons run_Nil client_flush [OF m])
  have e: "run m (es @ [Elapse d]) st = elapse m d (run m es st)" for d
    by (simp add: run_append run_Cons run_Nil)
  have safe: "requests (run m es st) = requests st \<and>
         buffer (run m es st) = recorded enc (clock st) es \<and>
         length (buffer (run m es st)) = count_records es"
  proof -
    have "count_records es = 0 \<Longrightarrow> recorded enc (clock st) es = []"
      using length_recorded [of enc "clock st" es] by simp
    then show ?thesis
      using assms(2) by (auto simp add: a length_recorded idle_def)
  qed
  have live: "timeouts (run m es st) =
              [(Timeout (next_handle st), clock st + before_first_record es + 5000)] \<and>
            requests (run m (es @ [Flush]) st) =
              requests st @
              [\<lparr>fc_request =
                  drain_request p
                    (st\<lparr>buffer := recorded enc (clock st) es,
                        clock := clock st + total_elapse es\<rparr>),
                fc_timeouts = []\<rparr>]" if c: "0 < count_records es"
  proof -
    have "recorded enc (clock st) es \<noteq> []"
      using c length_recorded [of enc "clock st" es] by auto
    then show ?thesis
      unfolding f using c
      by (simp add: a flush_snd cancelled_def drain_request_def buildEnvelope_def)
  qed
  have fires: "requests (run m (es @ [Elapse d]) st) =
                 requests st @
                 [\<lparr>fc_request =
                     drain_request p
                       (st\<lparr>buffer := recorded enc (clock st) es,
                           clock := clock st + before_first_record es + 5000\<rparr>),
                   fc_timeouts = []\<rparr>]"
    if c: "0 < count_records es" and d: "5000 \<le> since_first_record es + d" for d
  proof -
    have ne: "recorded enc (clock st) es \<noteq> []"
      using c length_recorded [of enc "clock st" es] by auto
    let ?s = "run m es st"
    let ?t = "(Timeout (next_handle st), clock st + before_first_record es + 5000)"
    have t: "timeouts ?s = [?t]" using c by (simp add: a)
    have due: "snd ?t \<le> clock ?s + d"
      using c d by (simp add: a elapse_split)
    have mx: "max (clock ?s) (snd ?t) = clock st + before_first_record es + 5000"
      using c assms(5) by (simp add: a elapse_split)
    show ?thesis
      unfolding e elapse_due [OF t due] mx using c ne
      by (simp add: a client_flush [OF m] flush_snd cancelled_def drain_request_def
          buildEnvelope_def)
  qed
  show ?thesis
    using safe live fires by blast
qed

lemma example_idle: "idle example_state"
  by (simp add: idle_def example_state_def)

lemma example_listing: "listing example_platform (metrics example_platform) call_metric"
  by (simp add: listing_def)

lemma example_before: "before_first_record example_trace = 0"
  by (simp add: example_trace_def example_call_def)

theorem no_request_before_deadline_witness:
  "listing example_platform (metrics example_platform) call_metric \<and>
   idle example_state \<and>
   list_all (\<lambda>e. \<not> is_flush e) example_trace \<and>
   count_records example_trace < 100 \<and>
   since_first_record example_trace < 5000 \<and>
   requests (run (metrics example_platform) example_trace example_state) = [] \<and>
   length (buffer (run (metrics example_platform) example_trace example_state)) = 99 \<and>
   timeouts (run (metrics example_platform) example_trace example_state) =
     [(Timeout 1, 1705312805000)] \<and>
   length (requests (run (metrics example_platform) (example_trace @ [Flush]) example_state)) = 1 \<and>
   length (requests (run (metrics example_platform) (example_trace @ [Elapse 1]) example_state)) = 1"
proof -
  have h4: "count_records example_trace < 100" and h5: "since_first_record example_trace < 5000"
    by (simp_all add: example_trace_facts)
  have e: "(5000::nat) \<le> since_first_record example_trace + 1"
    by (simp add: example_trace_facts)
  have s: "requests example_state = []" "next_handle example_state = 1"
    "clock example_state = 1705312800000"
    by (simp_all add: example_state_def)
  show ?thesis
    using no_request_before_deadline [OF example_listing example_idle example_trace_facts(1) h4 h5]
      example_listing example_idle example_trace_facts(1) h4 h5 e
    by (simp add: example_trace_facts example_before s length_recorded)
qed

subsection \<open>C6: at most one timeout\<close>

lemma stable_flush: "stable st \<Longrightarrow> stable (snd (flush p st)) \<and> idle (snd (flush p st))"
  by (auto simp add: stable_def idle_def accumulating_def flush_snd cancelled_def
      split: option.splits list.splits)

lemma stable_push: "stable st \<Longrightarrow> stable (push p metric st)"
  by (auto simp add: stable_def idle_def accumulating_def push_eq flush_snd cancelled_def
      split: option.splits list.splits)

lemma stable_elapse:
  assumes m: "client m p enc" and s: "stable st"
  shows "stable (elapse m d st)"
proof (cases "timeouts st")
  case Nil
  then show ?thesis
    using s by (auto simp add: elapse_no_timeouts stable_def idle_def accumulating_def
        split: option.splits)
next
  case (Cons t ts)
  with s have ts: "timeouts st = [t]" and acc: "accumulating st"
    by (auto simp add: stable_def idle_def accumulating_def split: option.splits list.splits)
  show ?thesis
  proof (cases "clock st + d < snd t")
    case True
    then show ?thesis
      using s ts by (auto simp add: elapse_not_due stable_def idle_def accumulating_def
          split: option.splits)
  next
    case False
    then have "snd t \<le> clock st + d" by simp
    then show ?thesis
      using s ts acc
      by (auto simp add: elapse_due client_flush [OF m] flush_snd cancelled_def stable_def idle_def
          accumulating_def split: option.splits)
  qed
qed

text \<open>
  The bound on the firings in \<open>elapse\<close> is enough: once the time has elapsed, no
  timeout that is due is left in the table.
\<close>

lemma elapse_complete:
  assumes m: "client m p enc" and s: "stable st"
  shows "next_due (clock (elapse m d st)) (timeouts (elapse m d st)) = None"
proof -
  have "stable (elapse m d st)"
    using m s by (rule stable_elapse)
  then show ?thesis
    by (auto simp add: stable_def idle_def accumulating_def next_due_Nil next_due_single
        split: option.splits list.splits)
qed

lemma stable_step: "client m p enc \<Longrightarrow> stable st \<Longrightarrow> stable (step m st e)"
  by (cases e) (simp_all add: client_invoke client_flush stable_push stable_flush stable_elapse)

lemma stable_run: "client m p enc \<Longrightarrow> stable st \<Longrightarrow> stable (run m es st)"
  by (induction es arbitrary: st) (simp_all add: run_Nil run_Cons stable_step)

lemma created_stable: "created p d now m enc st \<Longrightarrow> stable st"
  using created_fresh [of p d now m enc st] by (simp add: stable_def)

lemma stable_timeouts:
  "stable st \<Longrightarrow> length (timeouts st) \<le> 1 \<and> (timer st = None \<longleftrightarrow> timeouts st = [])"
  by (auto simp add: stable_def idle_def accumulating_def split: option.splits list.splits)

lemma pending_push:
  "stable st \<Longrightarrow> timer st \<noteq> None \<Longrightarrow>
     next_handle (push p metric st) = next_handle st \<and>
     (timeouts (push p metric st) = timeouts st \<or> timeouts (push p metric st) = [])"
  by (auto simp add: stable_def idle_def accumulating_def push_eq flush_snd cancelled_def
      split: option.splits list.splits)

text \<open>
  C6. Whatever happens to a fresh client (recording calls, calls of \<^verbatim>\<open>flush\<close>, time
  elapsing), at most one timeout is live afterwards, and one is live exactly when the
  variable \<^verbatim>\<open>timer\<close> holds a handle. A recording call made while a timeout is
  pending sets no timeout: the next handle is the same, and the live timeouts are the
  same or, when the call drained the buffer, none. Every request, whichever drain made
  it, was handed to \<^verbatim>\<open>fetch\<close> when no timeout was live, and after a call of
  \<^verbatim>\<open>flush\<close> none is. This holds for both listings.
\<close>

theorem at_most_one_timeout:
  assumes "created p d now m enc st"
  shows "length (timeouts (run m es st)) \<le> 1 \<and>
         (timer (run m es st) = None \<longleftrightarrow> timeouts (run m es st) = []) \<and>
         (timer (run m es st) \<noteq> None \<longrightarrow>
            next_handle (run m (es @ [Record c rnd]) st) = next_handle (run m es st) \<and>
            (timeouts (run m (es @ [Record c rnd]) st) = timeouts (run m es st) \<or>
             timeouts (run m (es @ [Record c rnd]) st) = [])) \<and>
         list_all (\<lambda>f. fc_timeouts f = []) (requests (run m es st)) \<and>
         timer (run m (es @ [Flush]) st) = None \<and>
         timeouts (run m (es @ [Flush]) st) = []"
proof -
  have m: "client m p enc"
    using assms created_fresh listing_client by blast
  have s: "stable (run m es st)"
    using m assms by (simp add: stable_run created_stable)
  have f: "run m (es @ [Flush]) st = snd (flush p (run m es st))"
    by (simp add: run_append run_Cons run_Nil client_flush [OF m])
  have r: "run m (es @ [Record c rnd]) st = push p (enc c rnd (clock (run m es st))) (run m es st)"
    by (simp add: run_append run_Cons run_Nil client_invoke [OF m])
  have i: "idle (snd (flush p (run m es st)))"
    using s stable_flush by blast
  show ?thesis
    unfolding f r using stable_timeouts [OF s] pending_push [OF s] s i
    by (simp add: stable_def idle_def)
qed

lemma example_pending:
  "timer (run (metrics example_platform) [example_call] example_state) = Some (Timeout 1)"
  by (simp add: run_Cons run_Nil example_call_def metrics_def add_push push_eq example_state_def)

theorem at_most_one_timeout_witness:
  "created example_platform ''https://abc123@o123456.ingest.sentry.io/4567890'' 1705312800000
     (metrics example_platform) call_metric example_state \<and>
   timer (run (metrics example_platform) [example_call] example_state) \<noteq> None \<and>
   length (timeouts (run (metrics example_platform) [example_call] example_state)) \<le> 1 \<and>
   next_handle (run (metrics example_platform) ([example_call] @ [example_call]) example_state) =
     next_handle (run (metrics example_platform) [example_call] example_state) \<and>
   list_all (\<lambda>f. fc_timeouts f = [])
     (requests (run (metrics example_platform) [example_call] example_state)) \<and>
   timeouts (run (metrics example_platform) ([example_call] @ [Flush]) example_state) = []"
  using at_most_one_timeout [OF example_created, of "[example_call]"
      "CallCount ''api.requests'' None None" "\<lambda>i. 0"]
    example_created example_pending
  by (simp add: example_call_def)

subsection \<open>C2: \<^verbatim>\<open>flush\<close> is idempotent\<close>

lemma flush_flush: "snd (flush p (snd (flush p st))) = snd (flush p st)"
  by (simp add: flush_snd cancelled_def)

text \<open>
  C2. After a call of \<^verbatim>\<open>flush\<close>, whatever happened to the client before, the buffer
  is empty, \<^verbatim>\<open>timer\<close> holds no handle and no timeout is live; a second call right
  after it changes nothing. A call of \<^verbatim>\<open>flush\<close> on a fresh client, or on any client
  whose buffer is empty, makes no request. Of two calls of \<^verbatim>\<open>flush\<close> with one recording
  call between them, the second makes exactly one request, whose body is the envelope
  of that one metric; on a fresh client it is the only request. This holds for both
  listings.
\<close>

theorem flush_idempotent:
  assumes "created p d now m enc st"
  shows "buffer (run m (es @ [Flush]) st) = [] \<and>
         timer (run m (es @ [Flush]) st) = None \<and>
         timeouts (run m (es @ [Flush]) st) = [] \<and>
         run m (es @ [Flush, Flush]) st = run m (es @ [Flush]) st \<and>
         requests (run m [Flush] st) = [] \<and>
         (buffer (run m es st) = [] \<longrightarrow> requests (run m (es @ [Flush]) st) = requests (run m es st)) \<and>
         requests (run m (es @ [Flush, Record c rnd, Flush]) st) =
           requests (run m (es @ [Flush]) st) @
           [\<lparr>fc_request =
               drain_request p
                 ((run m (es @ [Flush]) st)\<lparr>buffer := [enc c rnd (clock (run m es st))]\<rparr>),
             fc_timeouts = []\<rparr>] \<and>
         requests (run m [Flush, Record c rnd, Flush] st) =
           [\<lparr>fc_request = drain_request p (st\<lparr>buffer := [enc c rnd now]\<rparr>), fc_timeouts = []\<rparr>]"
proof -
  have m: "client m p enc"
    using assms created_fresh listing_client by blast
  have s: "stable (run m es st)"
    using m assms by (simp add: stable_run created_stable)
  let ?s = "run m es st"
  have i: "idle (snd (flush p ?s))"
    using s stable_flush by blast
  have f: "run m (es @ [Flush]) st = snd (flush p ?s)"
    by (simp add: run_append run_Cons run_Nil client_flush [OF m])
  have ff: "run m (es @ [Flush, Flush]) st = snd (flush p ?s)"
    by (simp add: run_append run_Cons run_Nil client_flush [OF m] flush_flush)
  have frf: "run m (es @ [Flush, Record c rnd, Flush]) st =
               snd (flush p (push p (enc c rnd (clock ?s)) (snd (flush p ?s))))"
    by (simp add: run_append run_Cons run_Nil client_flush [OF m] client_invoke [OF m] flush_snd)
  have fresh: "idle st" "requests st = []" "clock st = now"
    using created_fresh [OF assms] by simp_all
  have a: "buffer (run m (es @ [Flush]) st) = [] \<and>
         timer (run m (es @ [Flush]) st) = None \<and>
         timeouts (run m (es @ [Flush]) st) = [] \<and>
         run m (es @ [Flush, Flush]) st = run m (es @ [Flush]) st"
    unfolding f ff using i by (simp add: idle_def)
  have b: "requests (run m [Flush] st) = []"
    using fresh by (simp add: run_Cons run_Nil client_flush [OF m] flush_snd idle_def)
  have c: "buffer ?s = [] \<longrightarrow> requests (run m (es @ [Flush]) st) = requests ?s"
    unfolding f by (simp add: flush_snd)
  have d: "requests (run m (es @ [Flush, Record c rnd, Flush]) st) =
           requests (run m (es @ [Flush]) st) @
           [\<lparr>fc_request =
               drain_request p
                 ((run m (es @ [Flush]) st)\<lparr>buffer := [enc c rnd (clock ?s)]\<rparr>),
             fc_timeouts = []\<rparr>]"
    unfolding f frf using i
    by (simp add: idle_def push_eq flush_snd cancelled_def drain_request_def buildEnvelope_def)
  have e: "requests (run m [Flush, Record c rnd, Flush] st) =
           [\<lparr>fc_request = drain_request p (st\<lparr>buffer := [enc c rnd now]\<rparr>), fc_timeouts = []\<rparr>]"
    using fresh
    by (simp add: run_Cons run_Nil client_flush [OF m] client_invoke [OF m] idle_def push_eq
        flush_snd cancelled_def drain_request_def buildEnvelope_def)
  show ?thesis
    using a b c d e by blast
qed

theorem flush_idempotent_witness:
  "created example_platform ''https://abc123@o123456.ingest.sentry.io/4567890'' 1705312800000
     (metrics example_platform) call_metric example_state \<and>
   buffer (run (metrics example_platform) [] example_state) = [] \<and>
   requests (run (metrics example_platform) ([] @ [Flush]) example_state) = [] \<and>
   run (metrics example_platform) ([] @ [Flush, Flush]) example_state =
     run (metrics example_platform) ([] @ [Flush]) example_state \<and>
   length (requests (run (metrics example_platform) [Flush, example_call, Flush] example_state)) = 1"
  using flush_idempotent [OF example_created, of "[]" "CallCount ''api.requests'' None None" "\<lambda>i. 0"]
    example_created
  by (simp add: example_call_def run_Nil example_state_def)

subsection \<open>C3: failures of delivery are swallowed\<close>

lemma JSON_stringify_network: "JSON_stringify (p\<lparr>network := n\<rparr>) j = JSON_stringify p j"
  by (induction p j rule: JSON_stringify.induct) (simp_all split: jsnum.splits cong: map_cong)

lemma buildEnvelope_network: "buildEnvelope (p\<lparr>network := n\<rparr>) st ms = buildEnvelope p st ms"
  by (simp add: buildEnvelope_def JSON_stringify_network)

lemma flush_network: "snd (flush (p\<lparr>network := n\<rparr>) st) = snd (flush p st)"
  by (simp add: flush_snd drain_request_def buildEnvelope_network)

lemma push_network: "push (p\<lparr>network := n\<rparr>) metric st = push p metric st"
  by (simp add: push_def flush_network Let_def)

lemma String_of_network: "String_of (p\<lparr>network := n\<rparr>) v = String_of p v"
  by (induction p v rule: String_of.induct) simp_all

lemma formatAttributeValue_network:
  "formatAttributeValue (p\<lparr>network := n\<rparr>) v = formatAttributeValue p v"
  by (simp add: formatAttributeValue_def String_of_network Let_def)

lemma formatAttributes_network: "formatAttributes (p\<lparr>network := n\<rparr>) a = formatAttributes p a"
  by (simp add: formatAttributes_def formatAttributeValue_network split: option.splits)

lemma call_metric2_network: "call_metric2 (p\<lparr>network := n\<rparr>) c rnd now = call_metric2 p c rnd now"
  by (cases c) (simp_all add: createMetric_metric_def formatAttributes_network)

lemma fire_network:
  assumes "\<And>st. snd (flush_op m' st) = snd (flush_op m st)"
  shows "fire k m' target st = fire k m target st"
  by (induction k arbitrary: st) (simp_all add: assms split: option.splits)

lemma step_network:
  assumes m': "client m' (p\<lparr>network := n\<rparr>) enc'" and m: "client m p enc"
    and enc: "\<And>c rnd now. enc' c rnd now = enc c rnd now"
  shows "step m' st e = step m st e"
proof (cases e)
  case (Record c rnd)
  then show ?thesis
    by (simp add: client_invoke [OF m'] client_invoke [OF m] enc push_network)
next
  case Flush
  then show ?thesis
    by (simp add: client_flush [OF m'] client_flush [OF m] flush_network)
next
  case (Elapse d)
  have "fire k m' target st = fire k m target st" for k target
    by (rule fire_network) (simp add: client_flush [OF m'] client_flush [OF m] flush_network)
  then show ?thesis
    using Elapse by (simp add: elapse_def)
qed

lemma run_network:
  assumes m': "client m' (p\<lparr>network := n\<rparr>) enc'" and m: "client m p enc"
    and enc: "\<And>c rnd now. enc' c rnd now = enc c rnd now"
  shows "run m' es st = run m es st"
  by (induction es arbitrary: st) (simp_all add: run_Nil run_Cons step_network [OF m' m enc])

lemma createMetrics_Inr:
  "(\<exists>r. createMetrics p d now = Inr r) =
     (case parseURL p d of
        None \<Rightarrow> False
      | Some u \<Rightarrow> url_username u \<noteq> [] \<and> url_host u \<noteq> [] \<and> drop 1 (url_pathname u) \<noteq> [])"
  by (simp add: createMetrics_def Let_def split: option.splits)

lemma createMetrics2_Inr:
  "(\<exists>r. createMetrics2 p d now = Inr r) =
     (case parseURL p d of
        None \<Rightarrow> False
      | Some u \<Rightarrow> url_username u \<noteq> [] \<and> url_host u \<noteq> [] \<and> drop 1 (url_pathname u) \<noteq> [])"
  by (simp add: createMetrics2_def parseDSN_def Let_def split: option.splits)

text \<open>
  C3. The promise \<^verbatim>\<open>flush\<close> returns is fulfilled whatever \<^verbatim>\<open>fetch\<close> does, in both
  listings; a recording call returns no promise and has no failing branch. The state
  of the client after any trace, its buffer, its timeouts and the requests it has made,
  is the same on a network that answers every request in some other way \<open>n\<close>: a
  failure changes nothing, so a batch that was not delivered is not sent again and not
  put back. After a call of \<^verbatim>\<open>flush\<close> the buffer is empty, at most one request was
  added, and a second call adds none. \<^verbatim>\<open>createMetrics\<close> returns a client exactly when
  the address parses and has its three components: it throws for nothing else.
\<close>

theorem delivery_failure_swallowed:
  "fst (flush p st) = Fulfilled () \<and>
   fst (flush2 p st) = Fulfilled () \<and>
   run (metrics (p\<lparr>network := n\<rparr>)) es st = run (metrics p) es st \<and>
   run (metrics2 (p\<lparr>network := n\<rparr>)) es st = run (metrics2 p) es st \<and>
   buffer (snd (flush p st)) = [] \<and>
   requests (snd (flush p st)) =
     (if buffer st = [] then requests st
      else requests st @ [\<lparr>fc_request = drain_request p st, fc_timeouts = cancelled st\<rparr>]) \<and>
   requests (snd (flush p (snd (flush p st)))) = requests (snd (flush p st)) \<and>
   (\<exists>r. createMetrics p d now = Inr r) =
     (case parseURL p d of
        None \<Rightarrow> False
      | Some u \<Rightarrow> url_username u \<noteq> [] \<and> url_host u \<noteq> [] \<and> drop 1 (url_pathname u) \<noteq> []) \<and>
   (\<exists>r. createMetrics2 p d now = Inr r) =
     (case parseURL p d of
        None \<Rightarrow> False
      | Some u \<Rightarrow> url_username u \<noteq> [] \<and> url_host u \<noteq> [] \<and> drop 1 (url_pathname u) \<noteq> [])"
proof -
  have 1: "run (metrics (p\<lparr>network := n\<rparr>)) es st = run (metrics p) es st"
    by (rule run_network [OF client_metrics client_metrics]) simp
  have 2: "run (metrics2 (p\<lparr>network := n\<rparr>)) es st = run (metrics2 p) es st"
    by (rule run_network [OF client_metrics2 client_metrics2]) (simp add: call_metric2_network)
  show ?thesis
    unfolding 1 2 createMetrics_Inr createMetrics2_Inr
    by (simp add: flush_fst flush2_flush flush_flush) (simp add: flush_snd)
qed

lemma example_buffered:
  "buffer (run (metrics example_platform) [example_call] example_state) \<noteq> []"
  "requests (run (metrics example_platform) [example_call] example_state) = []"
  by (simp_all add: run_Cons run_Nil example_call_def metrics_def add_push push_eq example_state_def)

theorem delivery_failure_swallowed_witness:
  "network example_platform
     (drain_request example_platform (run (metrics example_platform) [example_call] example_state)) =
     Rejects ''Failed to fetch'' \<and>
   fst (flush example_platform (run (metrics example_platform) [example_call] example_state)) =
     Fulfilled () \<and>
   buffer (snd (flush example_platform
                  (run (metrics example_platform) [example_call] example_state))) = [] \<and>
   length (requests (snd (flush example_platform
                            (run (metrics example_platform) [example_call] example_state)))) = 1 \<and>
   run (metrics (example_platform\<lparr>network := \<lambda>req. Resolves 200\<rparr>)) [Flush]
     (run (metrics example_platform) [example_call] example_state) =
     run (metrics example_platform) [Flush]
       (run (metrics example_platform) [example_call] example_state)"
  using delivery_failure_swallowed [where p = example_platform
      and st = "run (metrics example_platform) [example_call] example_state"
      and n = "\<lambda>req. Resolves 200" and es = "[Flush]"]
    example_buffered
  by (simp add: example_platform_def)

subsection \<open>C7: construction fails on an incomplete address\<close>

text \<open>
  C7. When the address does not parse, or parses and its user name, its host or its
  path after the leading slash is empty, \<^verbatim>\<open>createMetrics\<close> throws: the \<^verbatim>\<open>TypeError\<close>
  of \<^verbatim>\<open>new URL\<close> in the first case, the error
  \<^verbatim>\<open>Invalid DSN: missing required components\<close> in the second. The caller receives
  the error, and neither a client nor its state (buffer, timer) exists. In the second
  listing \<^verbatim>\<open>parseDSN\<close> throws the same error, which \<^verbatim>\<open>createMetrics\<close> passes on.
\<close>

theorem construction_fails:
  assumes "case parseURL p d of
             None \<Rightarrow> True
           | Some u \<Rightarrow> url_username u = [] \<or> url_host u = [] \<or> drop 1 (url_pathname u) = []"
  shows "createMetrics p d now =
           Inl (case parseURL p d of
                  None \<Rightarrow> TypeError
                | Some u \<Rightarrow> Error ''Invalid DSN: missing required components'') \<and>
         parseDSN p d =
           Inl (case parseURL p d of
                  None \<Rightarrow> TypeError
                | Some u \<Rightarrow> Error ''Invalid DSN: missing required components'') \<and>
         createMetrics2 p d now =
           Inl (case parseURL p d of
                  None \<Rightarrow> TypeError
                | Some u \<Rightarrow> Error ''Invalid DSN: missing required components'')"
  using assms
  by (auto simp add: createMetrics_def createMetrics2_def parseDSN_def Let_def split: option.splits)

theorem construction_fails_witness:
  "parseURL example_platform ''https://example.com'' =
     Some \<lparr>url_username = [], url_host = ''example.com'', url_pathname = ''/''\<rparr> \<and>
   createMetrics example_platform ''https://example.com'' 0 =
     Inl (Error ''Invalid DSN: missing required components'') \<and>
   createMetrics2 example_platform ''https://example.com'' 0 =
     Inl (Error ''Invalid DSN: missing required components'')"
proof -
  have u: "parseURL example_platform ''https://example.com'' =
     Some \<lparr>url_username = [], url_host = ''example.com'', url_pathname = ''/''\<rparr>"
    by (simp add: example_platform_def example_parseURL_def)
  show ?thesis
    using construction_fails [of example_platform "''https://example.com''" 0] u by simp
qed

subsection \<open>C8: the kind of a tag value\<close>

lemma assign_proto: "assign ''__proto__'' v es = es"
  by (cases es) simp_all

lemma assign_new:
  "k \<noteq> ''__proto__'' \<Longrightarrow> k \<notin> fst ` set es \<Longrightarrow> assign k v es = es @ [(k, v)]"
  by (induction es) auto

lemma foldl_assign:
  "distinct (map fst acc @ map fst attrs) \<Longrightarrow>
   foldl (\<lambda>acc kv. assign (fst kv) (f (snd kv)) acc) acc attrs =
     acc @ map (\<lambda>kv. (fst kv, f (snd kv))) (filter (\<lambda>kv. fst kv \<noteq> ''__proto__'') attrs)"
proof (induction attrs arbitrary: acc)
  case Nil
  then show ?case by simp
next
  case (Cons kv attrs)
  show ?case
  proof (cases "fst kv = ''__proto__''")
    case True
    have "distinct (map fst acc @ map fst attrs)"
      using Cons.prems by auto
    then show ?thesis
      using Cons.IH [of acc] True by (simp add: assign_proto)
  next
    case False
    have new: "fst kv \<notin> fst ` set acc"
      using Cons.prems by auto
    have "distinct (map fst (acc @ [(fst kv, f (snd kv))]) @ map fst attrs)"
      using Cons.prems by auto
    then show ?thesis
      using Cons.IH [of "acc @ [(fst kv, f (snd kv))]"] False
      by (simp add: assign_new [OF False new])
  qed
qed

lemma Number_isInteger_frac: "(q = of_int \<lfloor>q\<rfloor>) = (q \<in> \<int>)" for q :: rat
  by (metis Ints_of_int of_int_floor)

lemma formatAttributeValue_kind:
  "formatAttributeValue p v = \<lparr>fa_value = v, fa_type = attribute_kind v\<rparr>"
  by (induction v rule: attribute_kind.induct)
     (simp_all add: formatAttributeValue_def Number_isInteger_frac)

lemma add_kind:
  "(let t = typeof v
    in \<lparr>fa_value = v,
        fa_type = (if t = ''number''
                   then (if Number_isInteger v then ''integer'' else ''double'')
                   else t)\<rparr>) = \<lparr>fa_value = v, fa_type = attribute_kind v\<rparr>"
  by (induction v rule: attribute_kind.induct) (simp_all add: Number_isInteger_frac)

lemma add_attributes_kind:
  "distinct (map fst attrs) \<Longrightarrow>
   add_attributes attrs =
     map (\<lambda>kv. (fst kv, \<lparr>fa_value = snd kv, fa_type = attribute_kind (snd kv)\<rparr>))
       (filter (\<lambda>kv. fst kv \<noteq> ''__proto__'') attrs)"
  using foldl_assign [of "[]" attrs "\<lambda>v. \<lparr>fa_value = v, fa_type = attribute_kind v\<rparr>"]
  by (simp add: add_attributes_def add_kind [unfolded Let_def] Let_def)

lemma formatAttributes_kind:
  "distinct (map fst attrs) \<Longrightarrow>
   formatAttributes p (Some attrs) =
     Some (map (\<lambda>kv. (fst kv, \<lparr>fa_value = snd kv, fa_type = attribute_kind (snd kv)\<rparr>))
             (filter (\<lambda>kv. fst kv \<noteq> ''__proto__'') attrs))"
  using foldl_assign [of "[]" attrs "\<lambda>v. \<lparr>fa_value = v, fa_type = attribute_kind v\<rparr>"]
  by (simp add: formatAttributes_def formatAttributeValue_kind)

text \<open>
  What the code does for the tags it stores. \<^verbatim>\<open>formatAttributeValue\<close> keeps the value
  and gives it the kind the specification names. The attributes that \<^verbatim>\<open>add\<close> and
  \<^verbatim>\<open>createMetric\<close> put into the metric are the tags supplied under a key other than
  \<^verbatim>\<open>__proto__\<close>, in their order, each with its value and that kind (the keys of an
  object are distinct).
\<close>

lemma stored_attributes:
  assumes "distinct (map fst attrs)"
  shows "formatAttributeValue p v = \<lparr>fa_value = v, fa_type = attribute_kind v\<rparr> \<and>
         m_attributes
           (add_metric name val type (Some \<lparr>opt_unit = u, opt_attributes = Some attrs\<rparr>) rnd now) =
           Some (map (\<lambda>kv. (fst kv, \<lparr>fa_value = snd kv, fa_type = attribute_kind (snd kv)\<rparr>))
                   (filter (\<lambda>kv. fst kv \<noteq> ''__proto__'') attrs)) \<and>
         m_attributes
           (createMetric_metric p name val type (Some \<lparr>opt_unit = u, opt_attributes = Some attrs\<rparr>)
              rnd now) =
           Some (map (\<lambda>kv. (fst kv, \<lparr>fa_value = snd kv, fa_type = attribute_kind (snd kv)\<rparr>))
                   (filter (\<lambda>kv. fst kv \<noteq> ''__proto__'') attrs))"
  using assms
  by (simp add: formatAttributeValue_kind add_metric_def createMetric_metric_def
      add_attributes_kind formatAttributes_kind)

lemma example_kinds:
  "map (\<lambda>kv. (fst kv, \<lparr>fa_value = snd kv, fa_type = attribute_kind (snd kv)\<rparr>))
     (filter (\<lambda>kv. fst kv \<noteq> ''__proto__'') example_attributes) =
     [(''route'', \<lparr>fa_value = AString ''/checkout'', fa_type = ''string''\<rparr>),
      (''count'', \<lparr>fa_value = ANumber (Finite 42), fa_type = ''integer''\<rparr>),
      (''active'', \<lparr>fa_value = ABoolean True, fa_type = ''boolean''\<rparr>),
      (''amount'', \<lparr>fa_value = ANumber (Finite (375 / 2)), fa_type = ''double''\<rparr>)]"
  by code_simp

lemma stored_attributes_example:
  "m_attributes
     (add_metric ''checkout.failed'' (Finite 1) Counter
        (Some \<lparr>opt_unit = None, opt_attributes = Some example_attributes\<rparr>) (\<lambda>i. 0) 0) =
     Some [(''route'', \<lparr>fa_value = AString ''/checkout'', fa_type = ''string''\<rparr>),
           (''count'', \<lparr>fa_value = ANumber (Finite 42), fa_type = ''integer''\<rparr>),
           (''active'', \<lparr>fa_value = ABoolean True, fa_type = ''boolean''\<rparr>),
           (''amount'', \<lparr>fa_value = ANumber (Finite (375 / 2)), fa_type = ''double''\<rparr>)] \<and>
   m_attributes
     (createMetric_metric example_platform ''checkout.failed'' (Finite 1) Counter
        (Some \<lparr>opt_unit = None, opt_attributes = Some example_attributes\<rparr>) (\<lambda>i. 0) 0) =
     Some [(''route'', \<lparr>fa_value = AString ''/checkout'', fa_type = ''string''\<rparr>),
           (''count'', \<lparr>fa_value = ANumber (Finite 42), fa_type = ''integer''\<rparr>),
           (''active'', \<lparr>fa_value = ABoolean True, fa_type = ''boolean''\<rparr>),
           (''amount'', \<lparr>fa_value = ANumber (Finite (375 / 2)), fa_type = ''double''\<rparr>)]"
proof -
  have d: "distinct (map fst example_attributes)"
    by (simp add: example_attributes_def)
  show ?thesis
    using stored_attributes [OF d, where v = "ANumber (Finite 42)" and p = example_platform
        and name = "''checkout.failed''" and val = "Finite 1" and type = Counter and u = None
        and rnd = "\<lambda>i. 0" and now = 0]
    by (simp add: example_kinds)
qed

text \<open>
  C8. The claim wants every tag supplied to be in the record with its value and its
  kind. The code misses one case: a tag whose key is \<^verbatim>\<open>__proto__\<close>. Here the tag
  \<^verbatim>\<open>__proto__\<close> with the value 42, which \<^verbatim>\<open>formatAttributeValue\<close> classifies as
  \<open>integer\<close>, is supplied to \<^verbatim>\<open>count\<close> on a fresh client: in both listings the
  record buffered has the property \<^verbatim>\<open>attributes\<close>, and it is the empty object.
\<close>

theorem proto_tag_lost:
  "formatAttributeValue example_platform (ANumber (Finite 42)) =
     \<lparr>fa_value = ANumber (Finite 42), fa_type = ''integer''\<rparr> \<and>
   map m_attributes
     (buffer (add example_platform ''api.requests'' (Finite 1) Counter
                (Some \<lparr>opt_unit = None, opt_attributes = Some [(''__proto__'', ANumber (Finite 42))]\<rparr>)
                (\<lambda>i. 0) example_state)) = [Some []] \<and>
   map m_attributes
     (buffer (createMetric example_platform ''api.requests'' (Finite 1) Counter
                (Some \<lparr>opt_unit = None, opt_attributes = Some [(''__proto__'', ANumber (Finite 42))]\<rparr>)
                (\<lambda>i. 0) example_state)) = [Some []] \<and>
   map (\<lambda>m. object_get (Metric_json m) ''attributes'')
     (buffer (add example_platform ''api.requests'' (Finite 1) Counter
                (Some \<lparr>opt_unit = None, opt_attributes = Some [(''__proto__'', ANumber (Finite 42))]\<rparr>)
                (\<lambda>i. 0) example_state)) = [Some (JObject [])] \<and>
   map (\<lambda>m. object_get (Metric_json m) ''attributes'')
     (buffer (createMetric example_platform ''api.requests'' (Finite 1) Counter
                (Some \<lparr>opt_unit = None, opt_attributes = Some [(''__proto__'', ANumber (Finite 42))]\<rparr>)
                (\<lambda>i. 0) example_state)) = [Some (JObject [])]"
  by (simp add: formatAttributeValue_kind add_push createMetric_push push_eq example_state_def
      add_metric_def createMetric_metric_def add_attributes_def formatAttributes_def
      truthy_unit_def Metric_json_def)

subsection \<open>C9: optional properties of a record\<close>

lemma Metric_json_keys:
  "object_keys (Metric_json m) =
     [''timestamp'', ''trace_id'', ''name'', ''value'', ''type'']
     @ (case m_unit m of None \<Rightarrow> [] | Some u \<Rightarrow> [''unit''])
     @ (case m_attributes m of None \<Rightarrow> [] | Some a \<Rightarrow> [''attributes''])"
  by (simp add: Metric_json_def split: option.splits)

lemma Metric_json_unit:
  "object_get (Metric_json m) ''unit'' = map_option JString (m_unit m)"
  by (simp add: Metric_json_def split: option.splits)

text \<open>
  C9 as stated does not hold: a unit that is supplied but is the empty string is not
  put into the record. Here \<^verbatim>\<open>{ unit: "" }\<close> is supplied to a gauge, and the record
  has the five mandatory properties and no \<^verbatim>\<open>unit\<close>, in both listings.
\<close>

theorem unit_field_counterexample:
  "opt_unit \<lparr>opt_unit = Some [], opt_attributes = None\<rparr> \<noteq> None \<and>
   map (\<lambda>m. object_keys (Metric_json m))
     (buffer (add example_platform ''queue.depth'' (Finite 42) Gauge
                (Some \<lparr>opt_unit = Some [], opt_attributes = None\<rparr>) (\<lambda>i. 0) example_state)) =
     [[''timestamp'', ''trace_id'', ''name'', ''value'', ''type'']] \<and>
   map (\<lambda>m. object_keys (Metric_json m))
     (buffer (createMetric example_platform ''queue.depth'' (Finite 42) Gauge
                (Some \<lparr>opt_unit = Some [], opt_attributes = None\<rparr>) (\<lambda>i. 0) example_state)) =
     [[''timestamp'', ''trace_id'', ''name'', ''value'', ''type'']]"
  by (simp add: add_push createMetric_push push_eq example_state_def Metric_json_keys
      add_metric_def createMetric_metric_def truthy_unit_def formatAttributes_def)

text \<open>
  C9, amended. The record has the property \<^verbatim>\<open>unit\<close> exactly when the options supply
  a unit that is not the empty string, and its value is then that unit; otherwise the
  property is absent (not \<^verbatim>\<open>null\<close>). The record has the property \<^verbatim>\<open>attributes\<close>
  exactly when the options supply attributes. This holds for both listings.
\<close>

theorem unit_and_attributes_fields:
  "object_get (Metric_json (add_metric name val type options rnd now)) ''unit'' =
     (case options of
        None \<Rightarrow> None
      | Some opts \<Rightarrow>
          (case opt_unit opts of None \<Rightarrow> None | Some u \<Rightarrow> if u = [] then None else Some (JString u))) \<and>
   object_get (Metric_json (createMetric_metric p name val type options rnd now)) ''unit'' =
     (case options of
        None \<Rightarrow> None
      | Some opts \<Rightarrow>
          (case opt_unit opts of None \<Rightarrow> None | Some u \<Rightarrow> if u = [] then None else Some (JString u))) \<and>
   (''unit'' \<in> set (object_keys (Metric_json (add_metric name val type options rnd now)))) =
     (case options of
        None \<Rightarrow> False
      | Some opts \<Rightarrow> (case opt_unit opts of None \<Rightarrow> False | Some u \<Rightarrow> u \<noteq> [])) \<and>
   (''unit'' \<in> set (object_keys (Metric_json (createMetric_metric p name val type options rnd now)))) =
     (case options of
        None \<Rightarrow> False
      | Some opts \<Rightarrow> (case opt_unit opts of None \<Rightarrow> False | Some u \<Rightarrow> u \<noteq> [])) \<and>
   (''attributes'' \<in> set (object_keys (Metric_json (add_metric name val type options rnd now)))) =
     (case options of None \<Rightarrow> False | Some opts \<Rightarrow> opt_attributes opts \<noteq> None) \<and>
   (''attributes'' \<in> set (object_keys (Metric_json (createMetric_metric p name val type options rnd now)))) =
     (case options of None \<Rightarrow> False | Some opts \<Rightarrow> opt_attributes opts \<noteq> None) \<and>
   add p name val type options rnd st =
     push p (add_metric name val type options rnd (clock st)) st \<and>
   createMetric p name val type options rnd st =
     push p (createMetric_metric p name val type options rnd (clock st)) st"
  by (simp add: Metric_json_keys Metric_json_unit add_metric_def createMetric_metric_def
      truthy_unit_def formatAttributes_def add_push createMetric_push split: option.splits)

theorem unit_and_attributes_fields_witness:
  "object_get
     (Metric_json (add_metric ''queue.depth'' (Finite 42) Gauge
        (Some \<lparr>opt_unit = Some ''items'', opt_attributes = None\<rparr>) (\<lambda>i. 0) 0)) ''unit'' =
     Some (JString ''items'') \<and>
   ''attributes'' \<notin> set (object_keys
     (Metric_json (add_metric ''queue.depth'' (Finite 42) Gauge
        (Some \<lparr>opt_unit = Some ''items'', opt_attributes = None\<rparr>) (\<lambda>i. 0) 0)))"
  using unit_and_attributes_fields [where name = "''queue.depth''" and val = "Finite 42"
      and type = Gauge and options = "Some \<lparr>opt_unit = Some ''items'', opt_attributes = None\<rparr>"
      and rnd = "\<lambda>i. 0" and now = 0]
  by simp

subsection \<open>C10: the correlation identifier\<close>

lemma hexdigit_hexchars: "d < 16 \<Longrightarrow> hexdigit d \<in> hexchars"
  unfolding hexdigit_def hexchars_def by (rule nth_mem) simp

lemma hexdigit_inj: "d < 16 \<Longrightarrow> e < 16 \<Longrightarrow> hexdigit d = hexdigit e \<Longrightarrow> d = e"
  unfolding hexdigit_def by (subst (asm) nth_eq_iff_index_eq) simp_all

lemma toString16_small: "n < 16 \<Longrightarrow> toString16 n = [hexdigit n]"
  by (simp add: toString16.simps)

lemma toString16_byte:
  "16 \<le> n \<Longrightarrow> n < 256 \<Longrightarrow> toString16 n = [hexdigit (n div 16), hexdigit (n mod 16)]"
  by (subst toString16.simps) (simp add: toString16_small less_mult_imp_div_less)

lemma unat_byte: "unat b < 256" for b :: "8 word"
proof -
  have "unat b < 2 ^ LENGTH(8)"
    by (rule unsigned_less)
  then show ?thesis by simp
qed

lemma hex_byte_digits: "hex_byte b = [hexdigit (unat b div 16), hexdigit (unat b mod 16)]"
proof -
  show ?thesis
    using unat_byte [of b]
    by (cases "unat b < 16")
       (simp_all add: hex_byte_def padStart_def toString16_small toString16_byte hexdigit_def)
qed

lemma hex_byte_inj: "hex_byte b = hex_byte c \<Longrightarrow> b = c"
proof -
  assume e: "hex_byte b = hex_byte c"
  have b: "unat b < 256" and c: "unat c < 256"
    by (rule unat_byte)+
  have "unat b div 16 = unat c div 16"
    using e b c by (auto simp add: hex_byte_digits less_mult_imp_div_less intro!: hexdigit_inj)
  moreover have "unat b mod 16 = unat c mod 16"
    using e by (auto simp add: hex_byte_digits intro!: hexdigit_inj)
  ultimately have "unat b = unat c"
    by (metis div_mult_mod_eq)
  then show "b = c" by (simp add: word_unat_eq_iff)
qed

lemma concat_hex_length: "length (concat (map hex_byte bs)) = 2 * length bs"
  by (induction bs) (simp_all add: hex_byte_digits)

lemma concat_hex_set: "set (concat (map hex_byte bs)) \<subseteq> hexchars"
proof -
  have "unat b div 16 < 16" for b :: "8 word"
    using unat_byte [of b] by (simp add: less_mult_imp_div_less)
  then show ?thesis
    by (induction bs) (simp_all add: hex_byte_digits hexdigit_hexchars)
qed

lemma concat_hex_inj:
  "length bs = length cs \<Longrightarrow> concat (map hex_byte bs) = concat (map hex_byte cs) \<Longrightarrow> bs = cs"
proof (induction bs cs rule: list_induct2)
  case Nil
  then show ?case by simp
next
  case (Cons b bs c cs)
  from Cons.prems have "hex_byte b = hex_byte c" and "concat (map hex_byte bs) = concat (map hex_byte cs)"
    by (simp_all add: hex_byte_digits [of b] hex_byte_digits [of c])
  then show ?case
    using Cons.IH hex_byte_inj by simp
qed

lemma join_Nil: "join [] xs = concat xs"
  by (induction "[] :: string" xs rule: join.induct) simp_all

lemma generateTraceId_concat: "generateTraceId rnd = concat (map hex_byte (map rnd [0..<16]))"
  by (simp add: generateTraceId_def getRandomValues_def join_Nil hex_byte_def Let_def comp_def)

lemma dash_not_hex: "CHR ''-'' \<notin> hexchars"
  by (simp add: hexchars_def)

lemma filter_hex: "set s \<subseteq> hexchars \<Longrightarrow> filter (\<lambda>c. c \<noteq> CHR ''-'') s = s"
  using dash_not_hex by (induction s) auto

lemma length_uuid_bytes: "length (uuid_bytes rnd) = 16"
  by (simp add: uuid_bytes_def Let_def)

lemma concat_take_drop:
  "concat (take n (drop k hs)) @ concat (drop (k + n) hs) = concat (drop k hs)"
proof -
  have "concat (take n (drop k hs) @ drop n (drop k hs)) = concat (drop k hs)"
    by (simp only: append_take_drop_id)
  then show ?thesis
    by (simp add: add.commute)
qed

lemma regroup:
  "concat (take 4 hs) @ concat (take 2 (drop 4 hs)) @ concat (take 2 (drop 6 hs))
     @ concat (take 2 (drop 8 hs)) @ concat (drop 10 hs) = concat hs"
proof -
  have s1: "concat (take 2 (drop 8 hs)) @ concat (drop 10 hs) = concat (drop 8 hs)"
    using concat_take_drop [of 2 8 hs] by simp
  have s2: "concat (take 2 (drop 6 hs)) @ concat (drop 8 hs) = concat (drop 6 hs)"
    using concat_take_drop [of 2 6 hs] by simp
  have s3: "concat (take 2 (drop 4 hs)) @ concat (drop 6 hs) = concat (drop 4 hs)"
    using concat_take_drop [of 2 4 hs] by simp
  have s4: "concat (take 4 hs) @ concat (drop 4 hs) = concat hs"
    using concat_take_drop [of 4 0 hs] by simp
  show ?thesis
    by (simp only: s1 s2 s3 s4)
qed

lemma take_hex_set: "set (concat (take n (map hex_byte bs))) \<subseteq> hexchars"
  using concat_hex_set [of "take n bs"] by (simp add: take_map)

lemma drop_hex_set: "set (concat (drop n (map hex_byte bs))) \<subseteq> hexchars"
  using concat_hex_set [of "drop n bs"] by (simp add: drop_map)

lemma take_drop_hex_set: "set (concat (take n (drop k (map hex_byte bs)))) \<subseteq> hexchars"
  using concat_hex_set [of "take n (drop k bs)"] by (simp add: take_map drop_map)

lemma uuid_concat:
  "filter (\<lambda>c. c \<noteq> CHR ''-'') (randomUUID rnd) = concat (map hex_byte (uuid_bytes rnd))"
  unfolding randomUUID_def Let_def
  by (simp add: filter_hex take_hex_set drop_hex_set take_drop_hex_set regroup
      del: set_concat)

lemma add_metric_trace_id:
  "m_trace_id (add_metric name val type options rnd now) = concat (map hex_byte (uuid_bytes rnd))"
  by (simp add: add_metric_def uuid_concat)

lemma createMetric_metric_trace_id:
  "m_trace_id (createMetric_metric p name val type options rnd now) = generateTraceId rnd"
  by (simp add: createMetric_metric_def)

lemma map_upt_eq: "(map f [0..<n] = map g [0..<n]) = (\<forall>i<n. f i = g i)"
  by (auto simp add: list_eq_iff_nth_eq)

text \<open>
  C10. The identifier \<^verbatim>\<open>generateTraceId\<close> returns has 32 characters, all of them
  lowercase hexadecimal digits: two digits for each of the 16 bytes drawn, the high one
  first. Two identifiers are equal exactly when the 16 bytes drawn are equal, so the
  identifier carries all 128 bits of the draw. The record \<^verbatim>\<open>createMetric\<close> builds
  carries the identifier of the bytes drawn in that call. In the first listing the
  identifier is \<^verbatim>\<open>crypto.randomUUID()\<close> without its dashes: again 32 lowercase
  hexadecimal digits, drawn in that call, and two of them are equal exactly when the
  16 bytes of the two UUIDs are.
\<close>

theorem trace_id_format:
  "length (generateTraceId rnd) = 32 \<and>
   set (generateTraceId rnd) \<subseteq> set ''0123456789abcdef'' \<and>
   generateTraceId rnd =
     concat (map (\<lambda>i. [hexdigit (unat (rnd i) div 16), hexdigit (unat (rnd i) mod 16)]) [0..<16]) \<and>
   (generateTraceId rnd = generateTraceId rnd') = (\<forall>i<16. rnd i = rnd' i) \<and>
   m_trace_id (createMetric_metric p name val type options rnd now) = generateTraceId rnd \<and>
   createMetric p name val type options rnd st =
     push p (createMetric_metric p name val type options rnd (clock st)) st \<and>
   m_trace_id (add_metric name val type options rnd now) =
     filter (\<lambda>c. c \<noteq> CHR ''-'') (randomUUID rnd) \<and>
   length (m_trace_id (add_metric name val type options rnd now)) = 32 \<and>
   set (m_trace_id (add_metric name val type options rnd now)) \<subseteq> set ''0123456789abcdef'' \<and>
   (m_trace_id (add_metric name val type options rnd now) =
      m_trace_id (add_metric name' val' type' options' rnd' now')) =
     (uuid_bytes rnd = uuid_bytes rnd') \<and>
   add p name val type options rnd st =
     push p (add_metric name val type options rnd (clock st)) st"
proof -
  have 1: "length (generateTraceId rnd) = 32"
    by (simp only: generateTraceId_concat concat_hex_length) simp
  have 2: "set (generateTraceId rnd) \<subseteq> set ''0123456789abcdef''"
    using concat_hex_set [of "map rnd [0..<16]"]
    by (simp only: generateTraceId_concat hexchars_def)
  have 3: "generateTraceId rnd =
     concat (map (\<lambda>i. [hexdigit (unat (rnd i) div 16), hexdigit (unat (rnd i) mod 16)]) [0..<16])"
    by (simp only: generateTraceId_concat map_map comp_def hex_byte_digits)
  have 4: "(generateTraceId rnd = generateTraceId rnd') = (\<forall>i<16. rnd i = rnd' i)"
  proof -
    have "concat (map hex_byte (map rnd [0..<16])) = concat (map hex_byte (map rnd' [0..<16])) \<Longrightarrow>
          map rnd [0..<16] = map rnd' [0..<16]"
      by (rule concat_hex_inj) simp_all
    then have "(generateTraceId rnd = generateTraceId rnd') = (map rnd [0..<16] = map rnd' [0..<16])"
      unfolding generateTraceId_concat by (auto simp only:)
    then show ?thesis
      by (simp only: map_upt_eq)
  qed
  have 5: "length (m_trace_id (add_metric name val type options rnd now)) = 32"
    by (simp add: add_metric_trace_id concat_hex_length length_uuid_bytes)
  have 6: "set (m_trace_id (add_metric name val type options rnd now)) \<subseteq> set ''0123456789abcdef''"
    using concat_hex_set [of "uuid_bytes rnd"]
    by (simp only: add_metric_trace_id hexchars_def)
  have 7: "(m_trace_id (add_metric name val type options rnd now) =
      m_trace_id (add_metric name' val' type' options' rnd' now')) =
     (uuid_bytes rnd = uuid_bytes rnd')"
    unfolding add_metric_trace_id
    using concat_hex_inj [of "uuid_bytes rnd" "uuid_bytes rnd'"]
    by (auto simp add: length_uuid_bytes)
  have 8: "m_trace_id (add_metric name val type options rnd now) =
     filter (\<lambda>c. c \<noteq> CHR ''-'') (randomUUID rnd)"
    by (simp add: add_metric_def)
  show ?thesis
    by (intro conjI 1 2 3 4 5 6 7 8 createMetric_metric_trace_id add_push createMetric_push)
qed

lemma example_ids:
  "generateTraceId example_entropy = ''00112233445566778899aabbccddeeff''"
  "filter (\<lambda>c. c \<noteq> CHR ''-'') (randomUUID example_entropy) = ''00112233445546778899aabbccddeeff''"
  by code_simp+

theorem trace_id_format_witness:
  "example_entropy 1 \<noteq> 0 \<and>
   generateTraceId example_entropy \<noteq> generateTraceId (\<lambda>i. 0) \<and>
   length (generateTraceId example_entropy) = 32 \<and>
   generateTraceId example_entropy = ''00112233445566778899aabbccddeeff'' \<and>
   m_trace_id (add_metric ''api.requests'' (Finite 1) Counter None example_entropy 0) =
     ''00112233445546778899aabbccddeeff''"
proof -
  note t = trace_id_format [where rnd = example_entropy and rnd' = "\<lambda>i. 0"]
  have d: "example_entropy 1 \<noteq> 0"
    by (simp add: example_entropy_def)
  have "(generateTraceId example_entropy = generateTraceId (\<lambda>i. 0)) =
          (\<forall>i<16. example_entropy i = 0)"
    by (rule t [THEN conjunct2, THEN conjunct2, THEN conjunct2, THEN conjunct1])
  then have "generateTraceId example_entropy \<noteq> generateTraceId (\<lambda>i. 0)"
    using d by auto
  moreover have "length (generateTraceId example_entropy) = 32"
    by (rule t [THEN conjunct1])
  ultimately show ?thesis
    using d by (simp add: example_ids add_metric_def)
qed

subsection \<open>C4: the envelope has three segments\<close>

lemma split_on_free: "c \<notin> set s \<Longrightarrow> split_on c s = [s]"
  by (induction s) auto

lemma split_on_append: "c \<notin> set s \<Longrightarrow> split_on c (s @ c # t) = s # split_on c t"
  by (induction s) auto

lemma LF_not_hex: "LF \<notin> hexchars"
  by (simp add: LF_def hexchars_def)

lemma toString16_hex: "set (toString16 n) \<subseteq> hexchars"
proof (induction n rule: toString16.induct)
  case (1 n)
  show ?case
  proof (cases "n < 16")
    case True
    then show ?thesis
      by (subst toString16.simps) (simp add: hexdigit_hexchars)
  next
    case False
    then show ?thesis
      using 1 by (subst toString16.simps) (simp add: hexdigit_hexchars)
  qed
qed

lemma padStart_hex: "set s \<subseteq> hexchars \<Longrightarrow> set (padStart k CHR ''0'' s) \<subseteq> hexchars"
  by (auto simp add: padStart_def hexchars_def)

lemma quote_char_LF: "LF \<notin> set (quote_char c)"
proof -
  have "LF \<notin> set (padStart 4 CHR ''0'' (toString16 (of_char c)))"
    using padStart_hex [OF toString16_hex] LF_not_hex by blast
  then show ?thesis
    by (auto simp add: quote_char_def backslash_def LF_def)
qed

lemma QuoteJSONString_LF: "LF \<notin> set (QuoteJSONString s)"
  by (simp add: QuoteJSONString_def quote_char_LF) (simp add: LF_def)

lemma join_LF:
  "LF \<notin> set sep \<Longrightarrow> (\<And>x. x \<in> set xs \<Longrightarrow> LF \<notin> set x) \<Longrightarrow> LF \<notin> set (join sep xs)"
  by (induction sep xs rule: join.induct) auto

lemma JSON_stringify_LF:
  "(\<And>q. LF \<notin> set (numberToString p q)) \<Longrightarrow> LF \<notin> set (JSON_stringify p j)"
proof (induction p j rule: JSON_stringify.induct)
  case (1 p s)
  then show ?case by (simp add: QuoteJSONString_LF)
next
  case (2 p n)
  then show ?case by (cases n) (simp_all add: LF_def)
next
  case (3 p b)
  then show ?case by (simp add: LF_def)
next
  case (4 p xs)
  have "LF \<notin> set (join '','' (map (JSON_stringify p) xs))"
    by (rule join_LF) (use 4 in \<open>auto simp add: LF_def\<close>)
  then show ?case by (simp add: LF_def)
next
  case (5 p kvs)
  have "LF \<notin> set (join '','' (map (\<lambda>kv. QuoteJSONString (fst kv) @ '':'' @ JSON_stringify p (snd kv)) kvs))"
  proof (rule join_LF)
    show "LF \<notin> set '',''" by (simp add: LF_def)
  next
    fix x
    assume "x \<in> set (map (\<lambda>kv. QuoteJSONString (fst kv) @ '':'' @ JSON_stringify p (snd kv)) kvs)"
    then obtain kv where kv: "kv \<in> set kvs"
      and x: "x = QuoteJSONString (fst kv) @ '':'' @ JSON_stringify p (snd kv)"
      by auto
    have "LF \<notin> set (JSON_stringify p (snd kv))"
      using "5.IH" [OF kv] "5.prems" by simp
    then show "LF \<notin> set x"
      using x QuoteJSONString_LF [of "fst kv"] by (simp add: LF_def)
  qed
  then show ?case by (simp add: LF_def)
qed

lemma digits_hex: "set (digits n) \<subseteq> hexchars"
proof (induction n rule: digits.induct)
  case (1 n)
  show ?case
  proof (cases "n < 10")
    case True
    then show ?thesis
      by (subst digits.simps) (simp add: hexdigit_hexchars)
  next
    case False
    have "n mod 10 < 16"
      by (rule less_trans [OF mod_less_divisor]) simp_all
    then show ?thesis
      using False 1 by (subst digits.simps) (simp add: hexdigit_hexchars)
  qed
qed

lemma fraction_hex: "set (fraction k r) \<subseteq> hexchars"
  using digits_hex by (induction k arbitrary: r) auto

lemma example_number_LF: "LF \<notin> set (example_number q)"
  using digits_hex [of "nat \<lfloor>\<bar>q\<bar>\<rfloor>"] fraction_hex [of 3 "\<bar>q\<bar> - of_int \<lfloor>\<bar>q\<bar>\<rfloor>"] LF_not_hex
  by (auto simp add: example_number_def LF_def)

lemma buildEnvelope_split:
  assumes n: "\<And>q. LF \<notin> set (numberToString p q)"
  shows "split_on LF (buildEnvelope p st ms) =
           [JSON_stringify p
              (JObject [(''dsn'', JString (dsn st)),
                        (''sent_at'', JString (toISOString p (clock st)))]),
            JSON_stringify p
              (JObject
                 [(''type'', JString ''trace_metric''),
                  (''item_count'', JNumber (Finite (of_nat (length ms)))),
                  (''content_type'', JString ''application/vnd.sentry.items.trace-metric+json'')]),
            JSON_stringify p (JObject [(''items'', JArray (map Metric_json ms))])]"
  unfolding buildEnvelope_def Let_def LF_def [symmetric]
  by (simp only: append_Cons append_Nil split_on_append [OF JSON_stringify_LF [OF n]]
      split_on_free [OF JSON_stringify_LF [OF n]])

lemma buildEnvelope_last: "last (buildEnvelope p st ms) = CHR ''}''"
  by (simp add: buildEnvelope_def Let_def)

lemma buildEnvelope_join:
  "buildEnvelope p st ms =
     join [LF]
       [JSON_stringify p
          (JObject [(''dsn'', JString (dsn st)),
                    (''sent_at'', JString (toISOString p (clock st)))]),
        JSON_stringify p
          (JObject
             [(''type'', JString ''trace_metric''),
              (''item_count'', JNumber (Finite (of_nat (length ms)))),
              (''content_type'', JString ''application/vnd.sentry.items.trace-metric+json'')]),
        JSON_stringify p (JObject [(''items'', JArray (map Metric_json ms))])]"
  by (simp add: buildEnvelope_def Let_def LF_def)

text \<open>
  C4. On a platform whose numbers print without a line feed, a call of \<^verbatim>\<open>flush\<close>
  with a buffer that is not empty, whatever its length, hands \<^verbatim>\<open>fetch\<close> one request
  whose body is three JSON texts joined by line feeds: the object with \<^verbatim>\<open>dsn\<close> and
  \<^verbatim>\<open>sent_at\<close> (the date in ISO format), the object with \<^verbatim>\<open>type\<close>
  (\<^verbatim>\<open>trace_metric\<close>), \<^verbatim>\<open>item_count\<close> (the number of metrics) and
  \<^verbatim>\<open>content_type\<close>, and the object with \<^verbatim>\<open>items\<close>, the array of the buffered
  metrics in their order. Splitting the body at line feeds gives back exactly these
  three texts, since \<^verbatim>\<open>JSON.stringify\<close> escapes the line feeds of strings, and the
  body does not end in a line feed. This holds for both listings.
\<close>

theorem envelope_three_segments:
  assumes "\<forall>q. LF \<notin> set (numberToString p q)"
    and "buffer st \<noteq> []"
  shows "requests (snd (flush p st)) =
           requests st @ [\<lparr>fc_request = drain_request p st, fc_timeouts = cancelled st\<rparr>] \<and>
         requests (snd (flush2 p st)) = requests (snd (flush p st)) \<and>
         req_body (drain_request p st) = buildEnvelope p st (buffer st) \<and>
         buildEnvelope p st (buffer st) =
           join [LF]
             [JSON_stringify p
                (JObject [(''dsn'', JString (dsn st)),
                          (''sent_at'', JString (toISOString p (clock st)))]),
              JSON_stringify p
                (JObject
                   [(''type'', JString ''trace_metric''),
                    (''item_count'', JNumber (Finite (of_nat (length (buffer st))))),
                    (''content_type'', JString ''application/vnd.sentry.items.trace-metric+json'')]),
              JSON_stringify p (JObject [(''items'', JArray (map Metric_json (buffer st)))])] \<and>
         split_on LF (buildEnvelope p st (buffer st)) =
           [JSON_stringify p
              (JObject [(''dsn'', JString (dsn st)),
                        (''sent_at'', JString (toISOString p (clock st)))]),
            JSON_stringify p
              (JObject
                 [(''type'', JString ''trace_metric''),
                  (''item_count'', JNumber (Finite (of_nat (length (buffer st))))),
                  (''content_type'', JString ''application/vnd.sentry.items.trace-metric+json'')]),
            JSON_stringify p (JObject [(''items'', JArray (map Metric_json (buffer st)))])] \<and>
         length (split_on LF (buildEnvelope p st (buffer st))) = 3 \<and>
         last (buildEnvelope p st (buffer st)) \<noteq> LF"
proof -
  have n: "\<And>q. LF \<notin> set (numberToString p q)"
    using assms(1) by simp
  have 1: "requests (snd (flush p st)) =
           requests st @ [\<lparr>fc_request = drain_request p st, fc_timeouts = cancelled st\<rparr>]"
    using assms(2) by (simp add: flush_snd)
  have 2: "requests (snd (flush2 p st)) = requests (snd (flush p st))"
    by (simp add: flush2_flush)
  have 3: "req_body (drain_request p st) = buildEnvelope p st (buffer st)"
    by (simp add: drain_request_def)
  have 6: "length (split_on LF (buildEnvelope p st (buffer st))) = 3"
    by (simp only: buildEnvelope_split [OF n]) simp
  have 7: "last (buildEnvelope p st (buffer st)) \<noteq> LF"
    by (simp add: buildEnvelope_last LF_def)
  show ?thesis
    by (intro conjI 1 2 3 buildEnvelope_join buildEnvelope_split [OF n] 6 7)
qed

lemma example_newline_state:
  "buffer (run (metrics example_platform) [example_newline_call] example_state) \<noteq> []"
  "requests (run (metrics example_platform) [example_newline_call] example_state) = []"
  by (simp_all add: run_Cons run_Nil example_newline_call_def metrics_def add_push push_eq
      example_state_def)

theorem envelope_three_segments_witness:
  "(\<forall>q. LF \<notin> set (numberToString example_platform q)) \<and>
   buffer (run (metrics example_platform) [example_newline_call] example_state) \<noteq> [] \<and>
   length (requests (snd (flush example_platform
                            (run (metrics example_platform) [example_newline_call] example_state)))) = 1 \<and>
   length (split_on LF
             (req_body (drain_request example_platform
                          (run (metrics example_platform) [example_newline_call] example_state)))) = 3"
proof -
  have h1: "\<forall>q. LF \<notin> set (numberToString example_platform q)"
    by (simp add: example_platform_def example_number_LF)
  note t = envelope_three_segments [OF h1 example_newline_state(1)]
  let ?st = "run (metrics example_platform) [example_newline_call] example_state"
  have "requests (snd (flush example_platform ?st)) =
          requests ?st @
          [\<lparr>fc_request = drain_request example_platform ?st, fc_timeouts = cancelled ?st\<rparr>]"
    by (rule t [THEN conjunct1])
  then have a: "length (requests (snd (flush example_platform ?st))) = 1"
    by (simp only: example_newline_state(2)) simp
  have b: "req_body (drain_request example_platform ?st) =
             buildEnvelope example_platform ?st (buffer ?st)"
    by (rule t [THEN conjunct2, THEN conjunct2, THEN conjunct1])
  have c: "length (split_on LF (buildEnvelope example_platform ?st (buffer ?st))) = 3"
    by (rule t [THEN conjunct2, THEN conjunct2, THEN conjunct2, THEN conjunct2, THEN conjunct2,
          THEN conjunct1])
  show ?thesis
    by (intro conjI h1 example_newline_state(1) a) (simp only: b c)
qed

end
